theory Spec2Isabelle
  imports Main "HOL-Library.Sublist" "HOL-Library.Word"
begin

section \<open>Go values shared by all components\<close>

text \<open>
  A Go \<^verbatim>\<open>error\<close> is modelled by the text of \<^verbatim>\<open>err.Error()\<close>: \<open>None\<close> is \<^verbatim>\<open>nil\<close>,
  \<open>Some msg\<close> is a non-nil error whose message is \<open>msg\<close>. A Go function with several
  results returns a tuple. A run of a Go function either returns, panics, or never
  returns.
\<close>

type_synonym error = "string option"

datatype 'a go = Return 'a | Panic string | NoReturn

definition newline :: char where
  "newline = CHR 0x0A"

section \<open>Chunker (ChunkDiff, GetFileChunks)\<close>

text \<open>
  \<^verbatim>\<open>strings.Split(s, "\n")\<close>: the substrings between the newlines of \<open>s\<close>; with \<open>n\<close>
  newlines in \<open>s\<close> the result has \<open>n + 1\<close> elements, so the empty string gives one
  empty element. The \<open>[]\<close> branch of the case is never taken.
\<close>

fun Split_nl :: "string \<Rightarrow> string list" where
  "Split_nl [] = [[]]"
| "Split_nl (c # cs) =
     (if c = newline then [] # Split_nl cs
      else (case Split_nl cs of [] \<Rightarrow> [[c]] | l # ls \<Rightarrow> (c # l) # ls))"

text \<open>\<^verbatim>\<open>strings.Join(elems, "\n")\<close>.\<close>

fun Join_nl :: "string list \<Rightarrow> string" where
  "Join_nl [] = []"
| "Join_nl [x] = x"
| "Join_nl (x # y # ys) = x @ newline # Join_nl (y # ys)"

text \<open>
  The slice expression \<^verbatim>\<open>lines[i:end]\<close> for \<open>0 \<le> i \<le> end \<le> len(lines)\<close>; the loop
  below checks the bounds before it takes the slice, as the Go runtime does.
\<close>

definition go_slice :: "'a list \<Rightarrow> int \<Rightarrow> int \<Rightarrow> 'a list" where
  "go_slice xs i j = take (nat (j - i)) (drop (nat i) xs)"

text \<open>
  The loop shared by ChunkDiff, GetFileChunks and GetProjectChunks:
  \<^verbatim>\<open>
  for i := 0; i < len(lines); i += chunkSize {
      end := i + chunkSize
      if end > len(lines) { end = len(lines) }
      chunk := strings.Join(lines[i:end], "\n")
      chunks = append(chunks, chunk)
  }
  \<close>
  \<open>chunkSize\<close> is a Go \<^verbatim>\<open>int\<close> read from the configuration, so it may be zero or
  negative. With a negative size \<open>end < i\<close> and the slice expression panics; with size
  zero \<open>i\<close> never advances and the loop appends empty chunks for ever. Sums of indices
  stay far below \<open>2^63\<close> (they are below twice the length of a slice held in memory), so
  unbounded integers stand for the 64-bit ones.
\<close>

function chunk_loop :: "string list \<Rightarrow> int \<Rightarrow> int \<Rightarrow> string list \<Rightarrow> string list go" where
  "chunk_loop lines chunkSize i chunks =
     (if i < int (length lines) then
        (let end = (if i + chunkSize > int (length lines) then int (length lines)
                    else i + chunkSize)
         in if i < 0 \<or> end < i then Panic ''slice bounds out of range''
            else if chunkSize = 0 then NoReturn
            else chunk_loop lines chunkSize (i + chunkSize)
                   (chunks @ [Join_nl (go_slice lines i end)]))
      else Return chunks)"
  by pat_completeness auto
termination
  by (relation "measure (\<lambda>(lines, chunkSize, i, chunks). nat (int (length lines) - i))")
     (auto split: if_splits)

definition ChunkDiff :: "string \<Rightarrow> int \<Rightarrow> string list go" where
  "ChunkDiff diff chunkSize = chunk_loop (Split_nl diff) chunkSize 0 []"

text \<open>
  \<^verbatim>\<open>os.ReadFile\<close> is the environment: a function from a path to an error or the
  file's contents. GetFileChunks returns \<^verbatim>\<open>(nil, err)\<close> when the read fails.
\<close>

definition GetFileChunks ::
  "(string \<Rightarrow> string + string) \<Rightarrow> string \<Rightarrow> int \<Rightarrow> (string list \<times> error) go" where
  "GetFileChunks ReadFile path chunkSize =
     (case ReadFile path of
        Inl err \<Rightarrow> Return ([], Some err)
      | Inr data \<Rightarrow>
          (case chunk_loop (Split_nl data) chunkSize 0 [] of
             Return chunks \<Rightarrow> Return (chunks, None)
           | Panic msg \<Rightarrow> Panic msg
           | NoReturn \<Rightarrow> NoReturn))"

declare chunk_loop.simps [simp del]


section \<open>Formatting helpers\<close>

text \<open>
  \<^verbatim>\<open>fmt.Sprintf("%d", n)\<close>: the decimal digits of an integer, with a minus sign for a
  negative one.
\<close>

definition digit_char :: "nat \<Rightarrow> char" where
  "digit_char d = ''0123456789'' ! (d mod 10)"

fun show_nat :: "nat \<Rightarrow> string" where
  "show_nat n = (if n < 10 then [digit_char n] else show_nat (n div 10) @ [digit_char n])"

definition show_int :: "int \<Rightarrow> string" where
  "show_int n = (if n < 0 then CHR ''-'' # show_nat (nat (- n)) else show_nat (nat n))"

declare show_nat.simps [simp del]

text \<open>
  \<^verbatim>\<open>strings.Index(s, sub)\<close>: the position of the first occurrence of \<open>sub\<close> in \<open>s\<close>;
  \<open>None\<close> stands for Go's \<open>-1\<close>. \<^verbatim>\<open>strings.Contains(s, sub)\<close> is \<open>Index(s, sub) >= 0\<close>.
\<close>

fun strings_Index :: "string \<Rightarrow> string \<Rightarrow> nat option" where
  "strings_Index [] sub = (if sub = [] then Some 0 else None)"
| "strings_Index (c # cs) sub =
     (if prefix sub (c # cs) then Some 0 else map_option Suc (strings_Index cs sub))"

definition strings_Contains :: "string \<Rightarrow> string \<Rightarrow> bool" where
  "strings_Contains s sub = (strings_Index s sub \<noteq> None)"

section \<open>Retry/Timeout Controller (retryWithBackoff)\<close>

text \<open>
  \<^verbatim>\<open>
  func retryWithBackoff(ctx context.Context, maxRetries int, fn func() error) error {
      var err error
      backoff := time.Second
      for i := 0; i < maxRetries; i++ {
          err = fn()
          if err == nil { return nil }
          select {
          case <-ctx.Done(): return ctx.Err()
          case <-time.After(backoff):
          }
          backoff *= 2
      }
      return err
  }
  \<close>
  The operation \<open>fn\<close> is a closure that reads and writes variables of its caller: it is
  a function from the state of those variables to an error and their new state. What
  the controller does besides returning is kept in the run: the number of calls of
  \<open>fn\<close> and the timers it armed with \<^verbatim>\<open>time.After\<close>, in order. A \<^verbatim>\<open>time.Duration\<close> is
  a 64-bit count of nanoseconds, so doubling wraps around.

  The context is the environment of the \<^verbatim>\<open>select\<close>: \<open>ctx j\<close> tells how the \<open>j\<close>-th wait
  of the run ends, \<open>None\<close> when the timer fires first, \<open>Some e\<close> when \<^verbatim>\<open>ctx.Done()\<close> is
  received first and \<^verbatim>\<open>ctx.Err()\<close> is \<open>e\<close>.
\<close>

record 's retry_run =
  fn_state :: 's
  calls :: nat
  timers :: "64 word list"

definition time_Second :: "64 word" where
  "time_Second = 1000000000"

function retry_loop ::
  "(nat \<Rightarrow> error) \<Rightarrow> int \<Rightarrow> ('s \<Rightarrow> error \<times> 's) \<Rightarrow> int \<Rightarrow> 64 word \<Rightarrow> error \<Rightarrow> 's retry_run
     \<Rightarrow> error \<times> 's retry_run" where
  "retry_loop ctx maxRetries fn i backoff err r =
     (if i < maxRetries then
        (case fn (fn_state r) of (err', s') \<Rightarrow>
           (let r1 = r\<lparr>fn_state := s', calls := Suc (calls r)\<rparr> in
            if err' = None then (None, r1)
            else (let r2 = r1\<lparr>timers := timers r1 @ [backoff]\<rparr> in
                  case ctx (length (timers r1)) of
                    Some ctx_err \<Rightarrow> (Some ctx_err, r2)
                  | None \<Rightarrow> retry_loop ctx maxRetries fn (i + 1) (backoff * 2) err' r2)))
      else (err, r))"
  by pat_completeness auto
termination
  by (relation "measure (\<lambda>(ctx, maxRetries, fn, i, backoff, err, r). nat (maxRetries - i))") auto

declare retry_loop.simps [simp del]

definition retryWithBackoff ::
  "(nat \<Rightarrow> error) \<Rightarrow> int \<Rightarrow> ('s \<Rightarrow> error \<times> 's) \<Rightarrow> 's \<Rightarrow> error \<times> 's retry_run" where
  "retryWithBackoff ctx maxRetries fn s =
     retry_loop ctx maxRetries fn 0 time_Second None \<lparr>fn_state = s, calls = 0, timers = []\<rparr>"

section \<open>Backend Client (ReviewChunk, GenerateUnitTests)\<close>

text \<open>
  Both request kinds send a system message (the prompt) and a user message that embeds
  the chunk in a fenced block, and ask for at most 2048 tokens.
\<close>

record chat_request =
  req_model :: string
  req_system :: string
  req_user :: string
  req_max_tokens :: int

definition review_message :: "string \<Rightarrow> string \<Rightarrow> string" where
  "review_message lang code =
     ''Here is the '' @ lang @ '' code diff chunk to review:'' @ [newline, newline]
       @ ''```'' @ lang @ [newline] @ code @ [newline] @ ''```''"

definition tests_message :: "string \<Rightarrow> string \<Rightarrow> string" where
  "tests_message lang code =
     ''Generate unit tests for this '' @ lang @ '' code diff:'' @ [newline, newline]
       @ ''```'' @ lang @ [newline] @ code @ [newline] @ ''```''"

text \<open>
  The two backends are the environment. The hosted API answers a request with an error
  or with the contents of the choices it returns. The local server answers the \<open>n\<close>-th
  POST of one client call with a transport error, or with a status code and a body
  that either fails to decode or decodes to the contents of its choices. (The other
  two error returns of the local variant, of \<^verbatim>\<open>json.Marshal\<close> and
  \<^verbatim>\<open>http.NewRequestWithContext\<close>, cannot happen: the body holds strings and an
  integer, and the method and the URL are constants.)
\<close>

datatype http_reply = TransportError string | Reply int "string + string list"

record LLMClient =
  provider :: string
  model :: string
  apiKey :: string
  openaiClient :: "chat_request \<Rightarrow> string + string list"
  httpClient :: "chat_request \<Rightarrow> nat \<Rightarrow> http_reply"
  lmstudioURL :: string

text \<open>
  The closure that lmstudioChat retries: it writes \<open>result\<close> and \<open>lastErr\<close> of
  lmstudioChat; \<open>posts\<close> counts the requests sent so far.
\<close>

record chat_vars =
  posts :: nat
  result :: string
  lastErr :: error

definition lmstudio_attempt :: "(nat \<Rightarrow> http_reply) \<Rightarrow> chat_vars \<Rightarrow> error \<times> chat_vars" where
  "lmstudio_attempt server v =
     (let v' = v\<lparr>posts := Suc (posts v)\<rparr> in
      case server (posts v) of
        TransportError e \<Rightarrow> (Some e, v'\<lparr>lastErr := Some e\<rparr>)
      | Reply status body \<Rightarrow>
          if status \<noteq> 200 then
            (let e = ''lmstudio status '' @ show_int status in (Some e, v'\<lparr>lastErr := Some e\<rparr>))
          else
            (case body of
               Inl e \<Rightarrow> (Some e, v'\<lparr>lastErr := Some e\<rparr>)
             | Inr choices \<Rightarrow>
                 (case choices of
                    [] \<Rightarrow> (Some ''No response from LLM'',
                           v'\<lparr>lastErr := Some ''No response from LLM''\<rparr>)
                  | c # _ \<Rightarrow> (None, v'\<lparr>result := c\<rparr>))))"

definition lmstudioChat ::
  "LLMClient \<Rightarrow> (nat \<Rightarrow> error) \<Rightarrow> string \<Rightarrow> string \<Rightarrow> string \<Rightarrow> string \<times> error" where
  "lmstudioChat l ctx prompt code lang =
     (let req = \<lparr>req_model = model l, req_system = prompt,
                 req_user = review_message lang code, req_max_tokens = 2048\<rparr> in
      case retryWithBackoff ctx 3 (lmstudio_attempt (httpClient l req))
             \<lparr>posts = 0, result = [], lastErr = None\<rparr> of
        (err, r) \<Rightarrow>
          if err \<noteq> None then ([], lastErr (fn_state r))
          else (result (fn_state r), None))"

definition ReviewChunk ::
  "LLMClient \<Rightarrow> (nat \<Rightarrow> error) \<Rightarrow> string \<Rightarrow> string \<Rightarrow> string \<Rightarrow> string \<times> error" where
  "ReviewChunk l ctx prompt code lang =
     (if provider l = ''openai'' then
        (case openaiClient l \<lparr>req_model = model l, req_system = prompt,
                 req_user = review_message lang code, req_max_tokens = 2048\<rparr> of
           Inl err \<Rightarrow> ([], Some err)
         | Inr choices \<Rightarrow>
             (case choices of
                [] \<Rightarrow> (''No response from LLM'', None)
              | c # _ \<Rightarrow> (c, None)))
      else lmstudioChat l ctx prompt code lang)"

definition lmstudioChatTest ::
  "LLMClient \<Rightarrow> (nat \<Rightarrow> error) \<Rightarrow> string \<Rightarrow> string \<Rightarrow> string \<Rightarrow> string \<times> error" where
  "lmstudioChatTest l ctx prompt code lang =
     (case httpClient l \<lparr>req_model = model l, req_system = prompt,
               req_user = tests_message lang code, req_max_tokens = 2048\<rparr> 0 of
        TransportError e \<Rightarrow> ([], Some e)
      | Reply status body \<Rightarrow>
          if status \<noteq> 200 then ([], Some (''lmstudio status '' @ show_int status))
          else
            (case body of
               Inl e \<Rightarrow> ([], Some e)
             | Inr choices \<Rightarrow>
                 (case choices of
                    [] \<Rightarrow> (''No response from LLM'', None)
                  | c # _ \<Rightarrow> (c, None))))"

definition GenerateUnitTests ::
  "LLMClient \<Rightarrow> (nat \<Rightarrow> error) \<Rightarrow> string \<Rightarrow> string \<Rightarrow> string \<Rightarrow> string \<times> error" where
  "GenerateUnitTests l ctx prompt code lang =
     (if provider l = ''openai'' then
        (case openaiClient l \<lparr>req_model = model l, req_system = prompt,
                 req_user = tests_message lang code, req_max_tokens = 2048\<rparr> of
           Inl err \<Rightarrow> ([], Some err)
         | Inr choices \<Rightarrow>
             (case choices of
                [] \<Rightarrow> (''No response from LLM'', None)
              | c # _ \<Rightarrow> (c, None)))
      else lmstudioChatTest l ctx prompt code lang)"


section \<open>Test Artifact Manager (ParseAndWriteTests, CleanupGeneratedTests, RunTests)\<close>

text \<open>
  The operating system is the environment. The world holds the files of the disk and
  counts the calls made so far of \<^verbatim>\<open>os.WriteFile\<close>, of \<^verbatim>\<open>time.Now\<close> and of the test
  command; the environment tells how the \<open>n\<close>-th call of each ends. A ledger file is
  kept as the list of records that was encoded into it. A write that fails may leave a file
  behind (\<^verbatim>\<open>os.WriteFile\<close> creates or truncates the file before it writes into it):
  \<open>WriteFile_left E n\<close> is what the \<open>n\<close>-th call leaves at its path when it fails,
  \<open>None\<close> when it does not touch the path. \<^verbatim>\<open>filepath.Join\<close> is a function of the
  standard library and is a parameter here.
\<close>

record FailedChunk =
  Index :: int
  Error :: string

record world =
  disk :: "string \<rightharpoonup> string"
  ledgers :: "string \<rightharpoonup> FailedChunk list"
  writes :: nat
  clock_reads :: nat
  test_runs :: nat

record os_env =
  WriteFile_err :: "nat \<Rightarrow> error"
  WriteFile_left :: "nat \<Rightarrow> string option"
  UnixNano :: "nat \<Rightarrow> int"
  filepath_Join :: "string \<Rightarrow> string \<Rightarrow> string"
  RunTests_err :: "nat \<Rightarrow> error"
  Create_err :: "string \<Rightarrow> error"

definition left_behind ::
  "('x os_env_scheme) \<Rightarrow> nat \<Rightarrow> string \<Rightarrow> (string \<rightharpoonup> string) \<Rightarrow> (string \<rightharpoonup> string)" where
  "left_behind E n name d =
     (case WriteFile_left E n of None \<Rightarrow> d | Some part \<Rightarrow> d(name \<mapsto> part))"

definition WriteFile :: "('x os_env_scheme) \<Rightarrow> string \<Rightarrow> string \<Rightarrow> world \<Rightarrow> error \<times> world" where
  "WriteFile E name data w =
     (case WriteFile_err E (writes w) of
        Some e \<Rightarrow>
          (Some e,
           w\<lparr>disk := left_behind E (writes w) name (disk w), writes := Suc (writes w)\<rparr>)
      | None \<Rightarrow> (None, w\<lparr>disk := (disk w)(name \<mapsto> data), writes := Suc (writes w)\<rparr>))"

definition fence :: string where
  "fence = ''```''"

text \<open>The code after the scanning loop of ParseAndWriteTests, reached by either \<^verbatim>\<open>break\<close>.\<close>

definition pw_finish :: "string list \<Rightarrow> world \<Rightarrow> (string list \<times> error) \<times> world" where
  "pw_finish files w =
     (if length files = 0 then ((files, Some ''no code blocks found in LLM test output''), w)
      else ((files, None), w))"

definition test_filename ::
  "('x os_env_scheme) \<Rightarrow> string \<Rightarrow> string \<Rightarrow> int \<Rightarrow> int \<Rightarrow> int \<Rightarrow> string" where
  "test_filename E lang dir chunkIdx blockNum now =
     (if lang = ''go'' then
        filepath_Join E dir (''llm_generated_test_'' @ show_int chunkIdx @ ''_''
          @ show_int blockNum @ ''_'' @ show_int now @ ''.go'')
      else
        filepath_Join E dir (''LLMGeneratedTest_'' @ show_int chunkIdx @ ''_''
          @ show_int blockNum @ ''_'' @ show_int now @ ''.php''))"

lemma strings_Index_bound:
  "strings_Index s sub = Some i \<Longrightarrow> i + length sub \<le> length s"
proof (induction s arbitrary: i)
  case Nil
  then show ?case by (simp split: if_splits)
next
  case (Cons c cs)
  show ?case
  proof (cases "prefix sub (c # cs)")
    case True
    with Cons.prems show ?thesis using prefix_length_le [OF True] by simp
  next
    case False
    with Cons.prems obtain j where "strings_Index cs sub = Some j" "i = Suc j" by auto
    with Cons.IH show ?thesis by simp
  qed
qed

text \<open>
  The loop of ParseAndWriteTests. \<open>start\<close> never exceeds the length of \<open>testGen\<close>, so
  the slices \<^verbatim>\<open>testGen[start:]\<close>, \<^verbatim>\<open>testGen[codeStart:]\<close> and
  \<^verbatim>\<open>testGen[codeStart:codeEnd]\<close> are within bounds.
\<close>

function pw_loop ::
  "('x os_env_scheme) \<Rightarrow> string \<Rightarrow> string \<Rightarrow> string \<Rightarrow> int \<Rightarrow> nat \<Rightarrow> int \<Rightarrow> string list \<Rightarrow> world
     \<Rightarrow> (string list \<times> error) \<times> world" where
  "pw_loop E testGen lang dir chunkIdx start blockNum files w =
     (case strings_Index (drop start testGen) fence of
        None \<Rightarrow> pw_finish files w
      | Some cs \<Rightarrow>
          (let codeStart = cs + start + 3 in
           case strings_Index (drop codeStart testGen) fence of
             None \<Rightarrow> pw_finish files w
           | Some ce \<Rightarrow>
               (let codeEnd = ce + codeStart;
                    codeBlock = take (codeEnd - codeStart) (drop codeStart testGen)
                in if lang = ''go'' \<or> lang = ''php'' then
                     (let filename = test_filename E lang dir chunkIdx blockNum
                                       (UnixNano E (clock_reads w));
                          w1 = w\<lparr>clock_reads := Suc (clock_reads w)\<rparr>
                      in case WriteFile E filename codeBlock w1 of
                           (Some err, w2) \<Rightarrow> ((files, Some err), w2)
                         | (None, w2) \<Rightarrow>
                             pw_loop E testGen lang dir chunkIdx (codeEnd + 3) (blockNum + 1)
                               (files @ [filename]) w2)
                   else ((files, Some (''test writing not supported for language: '' @ lang)),
                         w))))"
  by pat_completeness auto
termination
  by (relation "measure (\<lambda>(E, testGen, lang, dir, chunkIdx, start, blockNum, files, w).
                    length testGen - start)")
     (auto dest!: strings_Index_bound simp add: fence_def)

declare pw_loop.simps [simp del]

definition ParseAndWriteTests ::
  "('x os_env_scheme) \<Rightarrow> string \<Rightarrow> string \<Rightarrow> string \<Rightarrow> int \<Rightarrow> world
     \<Rightarrow> (string list \<times> error) \<times> world" where
  "ParseAndWriteTests E testGen lang dir chunkIdx w =
     pw_loop E testGen lang dir chunkIdx 0 0 [] w"

text \<open>\<^verbatim>\<open>os.Remove\<close> of each file; its errors are dropped.\<close>

definition CleanupGeneratedTests :: "string list \<Rightarrow> world \<Rightarrow> world" where
  "CleanupGeneratedTests files w = fold (\<lambda>f w. w\<lparr>disk := (disk w)(f := None)\<rparr>) files w"

definition RunTests :: "('x os_env_scheme) \<Rightarrow> string \<Rightarrow> string \<Rightarrow> world \<Rightarrow> error \<times> world" where
  "RunTests E lang dir w =
     (if lang = ''go'' \<or> lang = ''php'' then
        (RunTests_err E (test_runs w), w\<lparr>test_runs := Suc (test_runs w)\<rparr>)
      else (Some (''test running not supported for language: '' @ lang), w))"


section \<open>Review Orchestrator (ReviewAndFixLoop)\<close>

record LanguageConfig =
  Extension :: string
  ReviewPrompt :: string
  TestPrompt :: string

record Config =
  Model :: string
  ChunkSize :: int
  LLMProvider :: string
  LLMModel :: string
  Languages :: "string \<rightharpoonup> LanguageConfig"

text \<open>Indexing a Go map with a key it does not hold gives the zero value.\<close>

definition language_of :: "Config \<Rightarrow> string \<Rightarrow> LanguageConfig" where
  "language_of cfg k =
     (case Languages cfg k of
        None \<Rightarrow> \<lparr>Extension = [], ReviewPrompt = [], TestPrompt = []\<rparr>
      | Some v \<Rightarrow> v)"

text \<open>
  What the loop prints, one event for each message on standard output or standard
  error (the lines marked DEBUG are left out), and one for each \<^verbatim>\<open>time.Sleep\<close>.
  Chunk numbers in the messages are \<open>i + 1\<close>, as printed.
\<close>

datatype event =
    Reviewing nat nat string
  | ReviewAttemptError nat int int string
  | TimeoutWarning int
  | EmptyReview nat
  | TestGenAttemptError nat int int string
  | TestGenError nat string
  | TestSuggestions string
  | WriteTestsFailed string
  | WroteTests "string list"
  | TestRunFailed string
  | TestsPassed
  | ChunkDone nat
  | Sleep int

record loop_state =
  failedChunks :: "FailedChunk list"
  timeoutCount :: int
  totalTests :: int
  testsPassed :: int
  testsFailed :: int
  writtenFiles :: "string list"
  printed :: "event list"
  os :: world

text \<open>
  The environment of a run: the operating system, the two calls of the client, and
  the interrupt flag. \<open>ReviewChunk_at E i r\<close> is the call \<^verbatim>\<open>l.ReviewChunk(chunkCtx, ...)\<close>
  made for chunk \<open>i\<close> at attempt \<open>r\<close>, as a function of the prompt, the chunk and the
  language: \<open>ReviewChunk l ctx\<close> for the client, the backend and the fresh context of
  that moment, whose deadline is \<open>chunkTimeout\<close> away. \<open>interrupted_at E i\<close> is the value
  of the flag set by the signal handler when the loop reads it before chunk \<open>i\<close>.
\<close>

record run_env = os_env +
  ReviewChunk_at :: "nat \<Rightarrow> nat \<Rightarrow> string \<Rightarrow> string \<Rightarrow> string \<Rightarrow> string \<times> error"
  GenerateUnitTests_at :: "nat \<Rightarrow> nat \<Rightarrow> string \<Rightarrow> string \<Rightarrow> string \<Rightarrow> string \<times> error"
  interrupted_at :: "nat \<Rightarrow> bool"

text \<open>
  The two attempt loops of the loop body have one shape:
  \<^verbatim>\<open>
  for retries = 0; retries < maxRetries; retries++ {
      review, err = l.ReviewChunk(chunkCtx, reviewPrompt, chunk, lang)
      if err == nil { break }
      fmt.Fprintf(os.Stderr, "[!] Review error in chunk %d (attempt %d/%d): %v\n", ...)
      time.Sleep(2 * time.Second)
  }
  \<close>
  \<open>cur\<close> holds the two variables the loop assigns (\<open>review\<close> or \<open>testGen\<close>, and \<open>err\<close>).
\<close>

function attempt_loop ::
  "(nat \<Rightarrow> string \<times> error) \<Rightarrow> (int \<Rightarrow> string \<Rightarrow> event) \<Rightarrow> int \<Rightarrow> int \<Rightarrow> string \<times> error
     \<Rightarrow> event list \<Rightarrow> (string \<times> error) \<times> event list" where
  "attempt_loop call report maxRetries retries cur out =
     (if retries < maxRetries then
        (case call (nat retries) of
           (v, None) \<Rightarrow> ((v, None), out)
         | (v, Some e) \<Rightarrow>
             attempt_loop call report maxRetries (retries + 1) (v, Some e)
               (out @ [report (retries + 1) e, Sleep 2]))
      else (cur, out))"
  by pat_completeness auto
termination
  by (relation "measure (\<lambda>(call, report, maxRetries, retries, cur, out).
                    nat (maxRetries - retries))") auto

declare attempt_loop.simps [simp del]

definition deadline_exceeded :: string where
  "deadline_exceeded = ''context deadline exceeded''"

text \<open>
  \<^verbatim>\<open>timeoutCount++\<close> followed by the warning when the count is at least 3 (lines
  378-381 and 410-413).
\<close>

definition count_timeout :: "loop_state \<Rightarrow> loop_state" where
  "count_timeout s =
     (let n = timeoutCount s + 1 in
      s\<lparr>timeoutCount := n,
        printed := printed s @ (if n \<ge> 3 then [TimeoutWarning n] else [])\<rparr>)"

text \<open>
  Lines 375-390, after the review attempts. The result is \<open>True\<close> when the
  \<^verbatim>\<open>continue\<close> statement is reached. The inner test repeats the outer one, as it does in
  the source.
\<close>

definition after_review :: "nat \<Rightarrow> error \<Rightarrow> loop_state \<Rightarrow> bool \<times> loop_state" where
  "after_review i err s =
     (case err of
        None \<Rightarrow> (False, s)
      | Some e \<Rightarrow>
          if strings_Contains e deadline_exceeded then
            (let s1 = (if strings_Contains e deadline_exceeded then count_timeout s
                       else s\<lparr>timeoutCount := 0\<rparr>)
             in (True, s1\<lparr>failedChunks := failedChunks s1 @ [\<lparr>Index = int i, Error = e\<rparr>]\<rparr>))
          else (False, s\<lparr>timeoutCount := 0\<rparr>))"

text \<open>Lines 408-419, after the test-generation attempts.\<close>

definition after_tests :: "nat \<Rightarrow> error \<Rightarrow> loop_state \<Rightarrow> bool \<times> loop_state" where
  "after_tests i err s =
     (case err of
        None \<Rightarrow> (False, s)
      | Some e \<Rightarrow>
          (let s1 = (if strings_Contains e deadline_exceeded then count_timeout s
                     else s\<lparr>timeoutCount := 0\<rparr>)
           in (True, s1\<lparr>printed := printed s1 @ [TestGenError (i + 1) e]\<rparr>)))"

text \<open>Lines 422-440, the body of \<^verbatim>\<open>if writeTests\<close>.\<close>

definition write_and_run ::
  "('x run_env_scheme) \<Rightarrow> string \<Rightarrow> string \<Rightarrow> nat \<Rightarrow> string \<Rightarrow> loop_state \<Rightarrow> loop_state" where
  "write_and_run E lang dir i testGen s =
     (let s0 = s\<lparr>timeoutCount := 0\<rparr> in
      case ParseAndWriteTests E testGen lang dir (int i) (os s0) of
        ((files, Some e), w1) \<Rightarrow> s0\<lparr>os := w1, printed := printed s0 @ [WriteTestsFailed e]\<rparr>
      | ((files, None), w1) \<Rightarrow>
          (let s1 = s0\<lparr>os := w1, printed := printed s0 @ [WroteTests files],
                      writtenFiles := writtenFiles s0 @ files,
                      totalTests := totalTests s0 + int (length files)\<rparr>
           in case RunTests E lang dir (os s1) of
                (Some e, w2) \<Rightarrow>
                  s1\<lparr>os := w2, printed := printed s1 @ [TestRunFailed e],
                     testsFailed := testsFailed s1 + int (length files)\<rparr>
              | (None, w2) \<Rightarrow>
                  s1\<lparr>os := w2, printed := printed s1 @ [TestsPassed],
                     testsPassed := testsPassed s1 + int (length files)\<rparr>))"

text \<open>
  The body of the loop over the chunks, from the banner to the end of the iteration
  (lines 358-441), for chunk \<open>i\<close> of \<open>n\<close>. The variable \<open>err\<close> is shared by the two attempt
  loops, so the second one starts with the error the first one left.
\<close>

definition process_chunk ::
  "('x run_env_scheme) \<Rightarrow> LanguageConfig \<Rightarrow> string \<Rightarrow> bool \<Rightarrow> string \<Rightarrow> int \<Rightarrow> nat \<Rightarrow> nat \<Rightarrow> string
     \<Rightarrow> loop_state \<Rightarrow> loop_state" where
  "process_chunk E langCfg lang writeTests dir maxRetries n i chunk s =
     (let s0 = s\<lparr>printed := printed s @ [Reviewing (i + 1) n lang]\<rparr> in
      case attempt_loop (\<lambda>r. ReviewChunk_at E i r (ReviewPrompt langCfg) chunk lang)
             (ReviewAttemptError (i + 1) maxRetries) maxRetries 0 ([], None) (printed s0) of
        ((review, err), out1) \<Rightarrow>
          (case after_review i err (s0\<lparr>printed := out1\<rparr>) of
             (True, s2) \<Rightarrow> s2
           | (False, s2) \<Rightarrow>
               (let s3 = (if review = [] then s2\<lparr>printed := printed s2 @ [EmptyReview (i + 1)]\<rparr>
                          else s2)
                in case attempt_loop
                          (\<lambda>r. GenerateUnitTests_at E i r (TestPrompt langCfg) chunk lang)
                          (TestGenAttemptError (i + 1) maxRetries) maxRetries 0 ([], err)
                          (printed s3) of
                     ((testGen, err2), out2) \<Rightarrow>
                       (case after_tests i err2 (s3\<lparr>printed := out2\<rparr>) of
                          (True, s5) \<Rightarrow> s5
                        | (False, s5) \<Rightarrow>
                            (let s6 = s5\<lparr>printed := printed s5 @ [TestSuggestions testGen]\<rparr>;
                                 s7 = (if writeTests then write_and_run E lang dir i testGen s6
                                       else s6)
                             in s7\<lparr>printed := printed s7 @ [ChunkDone (i + 1)]\<rparr>)))))"

text \<open>\<^verbatim>\<open>for i, chunk := range chunks\<close>, with the interrupt check first in the body.\<close>

fun chunks_loop ::
  "('x run_env_scheme) \<Rightarrow> LanguageConfig \<Rightarrow> string \<Rightarrow> bool \<Rightarrow> string \<Rightarrow> int \<Rightarrow> nat \<Rightarrow> nat
     \<Rightarrow> string list \<Rightarrow> loop_state \<Rightarrow> loop_state" where
  "chunks_loop E langCfg lang writeTests dir maxRetries n i [] s = s"
| "chunks_loop E langCfg lang writeTests dir maxRetries n i (chunk # rest) s =
     (if interrupted_at E i then s
      else chunks_loop E langCfg lang writeTests dir maxRetries n (Suc i) rest
             (process_chunk E langCfg lang writeTests dir maxRetries n i chunk s))"

text \<open>
  The summary: the generated files are removed unless they are kept, and the ledger
  is written when it has a record and a path was given. \<^verbatim>\<open>os.Create\<close> may fail, and
  then nothing is written.
\<close>

definition write_summary :: "('x run_env_scheme) \<Rightarrow> bool \<Rightarrow> bool \<Rightarrow> string \<Rightarrow> loop_state \<Rightarrow> loop_state" where
  "write_summary E writeTests keepTests failedChunksFile s =
     (let s1 = (if writeTests \<and> \<not> keepTests
                then s\<lparr>os := CleanupGeneratedTests (writtenFiles s) (os s)\<rparr> else s)
      in if length (failedChunks s1) > 0 \<and> failedChunksFile \<noteq> [] then
           (case Create_err E failedChunksFile of
              Some e \<Rightarrow> s1
            | None \<Rightarrow>
                s1\<lparr>os := (os s1)\<lparr>ledgers := (ledgers (os s1))(failedChunksFile \<mapsto> failedChunks s1)\<rparr>\<rparr>)
         else s1)"

definition initial_state :: "world \<Rightarrow> loop_state" where
  "initial_state w =
     \<lparr>failedChunks = [], timeoutCount = 0, totalTests = 0, testsPassed = 0, testsFailed = 0,
      writtenFiles = [], printed = [], os = w\<rparr>"

definition ReviewAndFixLoop ::
  "('x run_env_scheme) \<Rightarrow> Config \<Rightarrow> string \<Rightarrow> string list \<Rightarrow> bool \<Rightarrow> string \<Rightarrow> bool \<Rightarrow> int \<Rightarrow> string
     \<Rightarrow> world \<Rightarrow> error \<times> loop_state" where
  "ReviewAndFixLoop E cfg lang chunks writeTests dir keepTests maxRetries failedChunksFile w =
     (if lang = ''go'' \<or> lang = ''php'' then
        (None,
         write_summary E writeTests keepTests failedChunksFile
           (chunks_loop E (language_of cfg lang) lang writeTests dir maxRetries (length chunks) 0
              chunks (initial_state w)))
      else (Some (''unsupported language: '' @ lang), initial_state w))"

section \<open>Resume mode: the loop over the ledger (main, lines 61-66)\<close>

text \<open>
  \<^verbatim>\<open>
  for _, fc := range failedChunks {
      if fc.Index >= 0 && fc.Index < len(allChunks) {
          chunks = append(chunks, allChunks[fc.Index])
      }
  }
  \<close>
  \<open>failed\<close> holds the \<open>Index\<close> fields decoded from the ledger. The index expression is
  checked as the Go runtime checks it: out of range, it panics.
\<close>

definition index_chunk :: "string list \<Rightarrow> int \<Rightarrow> string go" where
  "index_chunk allChunks i =
     (if 0 \<le> i \<and> i < int (length allChunks) then Return (allChunks ! nat i)
      else Panic ''index out of range'')"

fun resume_loop :: "string list \<Rightarrow> int list \<Rightarrow> string list \<Rightarrow> string list go" where
  "resume_loop allChunks [] chunks = Return chunks"
| "resume_loop allChunks (fc # rest) chunks =
     (if fc \<ge> 0 \<and> fc < int (length allChunks) then
        (case index_chunk allChunks fc of
           Return c \<Rightarrow> resume_loop allChunks rest (chunks @ [c])
         | Panic msg \<Rightarrow> Panic msg
         | NoReturn \<Rightarrow> NoReturn)
      else resume_loop allChunks rest chunks)"

definition resume_chunks :: "string list \<Rightarrow> int list \<Rightarrow> string list go" where
  "resume_chunks allChunks failed = resume_loop allChunks failed []"

section \<open>Command line (main): the chunks handed to the review loop\<close>

text \<open>
  The part of \<^verbatim>\<open>main\<close> that decides what is reviewed, from the resume block (line 40)
  to the calls of ReviewAndFixLoop (lines 180 and 206), for a configuration that has
  been loaded. What \<^verbatim>\<open>main\<close> reads is the environment: whether the checks of lines
  69-90 pass (the model name is allowed and the backend answers the health check);
  the ledger file (an error of \<^verbatim>\<open>os.Open\<close>, an error of the JSON decoder, or the \<open>Index\<close>
  fields of its records); the result of GetProjectChunks, whose error \<^verbatim>\<open>main\<close> drops;
  the two diffs of git; the regular files \<^verbatim>\<open>filepath.WalkDir\<close> visits, or its error;
  the contents of the files; and the order in which \<^verbatim>\<open>range\<close> visits the keys of a
  map, which Go leaves open. A run ends with \<^verbatim>\<open>os.Exit(1)\<close>, returns because the branch
  diff is empty, or calls ReviewAndFixLoop with a language and a list of chunks (once,
  or once for each language in review-project mode).
\<close>

definition go_bind :: "'a go \<Rightarrow> ('a \<Rightarrow> 'b go) \<Rightarrow> 'b go" where
  "go_bind x f = (case x of Return v \<Rightarrow> f v | Panic msg \<Rightarrow> Panic msg | NoReturn \<Rightarrow> NoReturn)"

record main_flags =
  flag_resume_failed :: bool
  flag_mode :: string
  flag_file :: string

record main_env =
  startup_passes :: bool
  ledger_file :: "string + (string + int list)"
  project_chunks :: "string list"
  uncommitted_diff :: "string + string"
  branch_diff :: "string + string"
  walked_files :: "string + string list"
  file_contents :: "string \<Rightarrow> string + string"
  languages_order :: "string list"
  go_before_php :: bool

datatype main_run = Exit1 | NoChanges | Reviews "(string \<times> string list) list"

text \<open>
  detectLangFromDiff and detectLangFromFilename return the first language, in the
  order of the \<^verbatim>\<open>range\<close>, whose extension occurs in the diff or ends the file name, and
  the empty string when there is none.
\<close>

definition detect_lang :: "(string \<Rightarrow> bool) \<Rightarrow> Config \<Rightarrow> string list \<Rightarrow> string" where
  "detect_lang matches cfg order =
     (case filter (\<lambda>l. case Languages cfg l of None \<Rightarrow> False
                                           | Some lcfg \<Rightarrow> matches (Extension lcfg)) order of
        [] \<Rightarrow> []
      | l # _ \<Rightarrow> l)"

definition detectLangFromDiff :: "string \<Rightarrow> Config \<Rightarrow> string list \<Rightarrow> string" where
  "detectLangFromDiff diff cfg order = detect_lang (\<lambda>ext. strings_Contains diff ext) cfg order"

definition detectLangFromFilename :: "string \<Rightarrow> Config \<Rightarrow> string list \<Rightarrow> string" where
  "detectLangFromFilename filename cfg order = detect_lang (\<lambda>ext. suffix ext filename) cfg order"

text \<open>
  Lines 40-67. \<open>None\<close> is \<^verbatim>\<open>os.Exit(1)\<close>; otherwise the result is the value of \<open>chunks\<close>
  at line 67.
\<close>

definition main_resume :: "main_flags \<Rightarrow> main_env \<Rightarrow> string list option go" where
  "main_resume F M =
     (if flag_resume_failed F then
        (case ledger_file M of
           Inl err \<Rightarrow> Return None
         | Inr (Inl err) \<Rightarrow> Return None
         | Inr (Inr indices) \<Rightarrow>
             go_bind (resume_chunks (project_chunks M) indices) (\<lambda>chunks. Return (Some chunks)))
      else Return (Some []))"

text \<open>
  Lines 162-184: the chunks of the files of each language, a file that cannot be
  chunked being passed over, and one call of ReviewAndFixLoop for each language that
  has chunks.
\<close>

fun file_chunks_all ::
  "(string \<Rightarrow> string + string) \<Rightarrow> int \<Rightarrow> string list \<Rightarrow> string list \<Rightarrow> string list go" where
  "file_chunks_all ReadFile chunkSize [] langChunks = Return langChunks"
| "file_chunks_all ReadFile chunkSize (f # files) langChunks =
     go_bind (GetFileChunks ReadFile f chunkSize)
       (\<lambda>(chunks, err). case err of
           Some e \<Rightarrow> file_chunks_all ReadFile chunkSize files langChunks
         | None \<Rightarrow> file_chunks_all ReadFile chunkSize files (langChunks @ chunks))"

fun project_reviews ::
  "(string \<Rightarrow> string + string) \<Rightarrow> int \<Rightarrow> (string \<times> string list) list
     \<Rightarrow> (string \<times> string list) list \<Rightarrow> (string \<times> string list) list go" where
  "project_reviews ReadFile chunkSize [] runs = Return runs"
| "project_reviews ReadFile chunkSize ((l, files) # rest) runs =
     (if length files = 0 then project_reviews ReadFile chunkSize rest runs
      else go_bind (file_chunks_all ReadFile chunkSize files [])
             (\<lambda>langChunks.
                if length langChunks = 0 then project_reviews ReadFile chunkSize rest runs
                else project_reviews ReadFile chunkSize rest (runs @ [(l, langChunks)])))"

text \<open>
  Lines 105-206, with the values \<open>lang\<close> and \<open>chunks\<close> have after line 67. Every branch
  that reaches a call of ReviewAndFixLoop assigns \<open>lang\<close> and \<open>chunks\<close> first (lines 113-119,
  134-139, 191-196) or passes a list of its own (line 180), as the \<^verbatim>\<open>let\<close> and the
  \<open>\<lambda>\<close> of the same names do here.
\<close>

definition main_mode ::
  "Config \<Rightarrow> main_flags \<Rightarrow> main_env \<Rightarrow> string \<Rightarrow> string list \<Rightarrow> main_run go" where
  "main_mode cfg F M lang chunks =
     (if flag_mode F = ''diff-uncommitted'' then
        (case uncommitted_diff M of
           Inl err \<Rightarrow> Return Exit1
         | Inr diff \<Rightarrow>
             (let lang = (if strings_Contains diff (Extension (language_of cfg ''go'')) then ''go''
                          else if strings_Contains diff (Extension (language_of cfg ''php''))
                          then ''php'' else ''go'')
              in go_bind (ChunkDiff diff (ChunkSize cfg))
                   (\<lambda>chunks. if lang = [] then Return Exit1
                             else Return (Reviews [(lang, chunks)]))))
      else if flag_mode F = ''diff-branch'' then
        (case branch_diff M of
           Inl err \<Rightarrow> Return Exit1
         | Inr diff \<Rightarrow>
             if length diff = 0 then Return NoChanges
             else (let lang = detectLangFromDiff diff cfg (languages_order M)
                   in if lang = [] then Return Exit1
                      else go_bind (ChunkDiff diff (ChunkSize cfg))
                             (\<lambda>chunks. Return (Reviews [(lang, chunks)]))))
      else if flag_mode F = ''review-project'' then
        (case walked_files M of
           Inl err \<Rightarrow> Return Exit1
         | Inr paths \<Rightarrow>
             (let goFiles = filter (suffix (Extension (language_of cfg ''go''))) paths;
                  phpFiles = filter (suffix (Extension (language_of cfg ''php''))) paths
              in if length goFiles = 0 \<and> length phpFiles = 0 then Return Exit1
                 else go_bind
                        (project_reviews (file_contents M) (ChunkSize cfg)
                           (if go_before_php M then [(''go'', goFiles), (''php'', phpFiles)]
                            else [(''php'', phpFiles), (''go'', goFiles)]) [])
                        (\<lambda>runs. Return (Reviews runs))))
      else if flag_mode F = ''review-file'' then
        (if flag_file F = [] then Return Exit1
         else go_bind (GetFileChunks (file_contents M) (flag_file F) (ChunkSize cfg))
                (\<lambda>(chunks, err). case err of
                    Some e \<Rightarrow> Return Exit1
                  | None \<Rightarrow>
                      (let lang = detectLangFromFilename (flag_file F) cfg (languages_order M)
                       in if lang = [] then Return Exit1
                          else Return (Reviews [(lang, chunks)]))))
      else Return Exit1)"

definition main_reviews :: "Config \<Rightarrow> main_flags \<Rightarrow> main_env \<Rightarrow> main_run go" where
  "main_reviews cfg F M =
     go_bind (main_resume F M)
       (\<lambda>resumed. case resumed of
            None \<Rightarrow> Return Exit1
          | Some chunks \<Rightarrow>
              if startup_passes M then
                main_mode cfg F M (if flag_resume_failed F then ''go'' else []) chunks
              else Return Exit1)"

section \<open>Vocabulary of the statements and inputs of the examples\<close>

text \<open>
  A device of the proofs, not part of the program: the list of windows of \<open>k\<close>
  elements that the loop of the chunker cuts, the last one possibly shorter.
\<close>

function chop :: "nat \<Rightarrow> 'a list \<Rightarrow> 'a list list" where
  "chop k xs = (if k = 0 \<or> xs = [] then [] else take k xs # chop k (drop k xs))"
  by pat_completeness auto

termination
  by (relation "measure (\<lambda>(k, xs). length xs)") auto

declare chop.simps [simp del]

text \<open>
  The vocabulary of the statements: \<open>fn_after fn j s\<close> is the state of the closure's
  variables after \<open>j\<close> calls of \<open>fn\<close> from \<open>s\<close>, \<open>fn_error fn j s\<close> is the error the
  call number \<open>j\<close> (from 0) returns, and \<open>backoffs b n\<close> are the first \<open>n\<close> durations
  \<open>b, 2b, 4b, ...\<close> in 64-bit arithmetic.
\<close>

definition fn_after :: "('s \<Rightarrow> error \<times> 's) \<Rightarrow> nat \<Rightarrow> 's \<Rightarrow> 's" where
  "fn_after fn j s = ((\<lambda>t. snd (fn t)) ^^ j) s"

definition fn_error :: "('s \<Rightarrow> error \<times> 's) \<Rightarrow> nat \<Rightarrow> 's \<Rightarrow> error" where
  "fn_error fn j s = fst (fn (fn_after fn j s))"

definition backoffs :: "64 word \<Rightarrow> nat \<Rightarrow> 64 word list" where
  "backoffs b n = map (\<lambda>j. b * 2 ^ j) [0..<n]"

text \<open>
  Two clients for the examples: a hosted one whose API answers every request with no
  choices, and a local one whose server answers every POST with status 200 and no
  choices.
\<close>

definition hosted_silent :: LLMClient where
  "hosted_silent = \<lparr>provider = ''openai'', model = ''gpt-4'', apiKey = ''k'',
     openaiClient = (\<lambda>req. Inr []), httpClient = (\<lambda>req n. TransportError ''unused''),
     lmstudioURL = []\<rparr>"

definition local_silent :: LLMClient where
  "local_silent = \<lparr>provider = ''lmstudio'', model = ''openchat_3.5'', apiKey = [],
     openaiClient = (\<lambda>req. Inl ''unused''), httpClient = (\<lambda>req n. Reply 200 (Inr [])),
     lmstudioURL = ''http://127.0.0.1:1234/v1/chat/completions''\<rparr>"

text \<open>
  An operating system on which nothing fails, and a world with an empty disk, for the
  examples.
\<close>

definition quiet_os :: os_env where
  "quiet_os = \<lparr>WriteFile_err = (\<lambda>n. None), WriteFile_left = (\<lambda>n. None),
     UnixNano = (\<lambda>n. 1700000000000000000 + int n),
     filepath_Join = (\<lambda>d f. d @ ''/'' @ f), RunTests_err = (\<lambda>n. None),
     Create_err = (\<lambda>p. None)\<rparr>"

definition empty_world :: world where
  "empty_world = \<lparr>disk = Map.empty, ledgers = Map.empty, writes = 0, clock_reads = 0,
     test_runs = 0\<rparr>"

text \<open>
  A text holds a fenced code block when it holds an opening fence and, after it, a
  closing one.
\<close>

definition has_code_block :: "string \<Rightarrow> bool" where
  "has_code_block text = (\<exists>a b c. text = a @ fence @ b @ fence @ c)"

text \<open>
  The scanning of the loop of ParseAndWriteTests without its effects: the code blocks
  it extracts from position \<open>start\<close> on, in order (lines 260-270 and 286).
\<close>

function scan_blocks :: "string \<Rightarrow> nat \<Rightarrow> string list" where
  "scan_blocks testGen start =
     (case strings_Index (drop start testGen) fence of
        None \<Rightarrow> []
      | Some cs \<Rightarrow>
          (let codeStart = cs + start + 3 in
           case strings_Index (drop codeStart testGen) fence of
             None \<Rightarrow> []
           | Some ce \<Rightarrow>
               take ce (drop codeStart testGen) # scan_blocks testGen (ce + codeStart + 3)))"
  by pat_completeness auto

termination
  by (relation "measure (\<lambda>(testGen, start). length testGen - start)")
     (auto dest!: strings_Index_bound simp add: fence_def)

declare scan_blocks.simps [simp del]

text \<open>
  The names the loop gives to the files of a list of blocks, each with its block, when
  the first of them has number \<open>blockNum\<close> and the clock has been read \<open>c\<close> times; and
  the disk after storing a list of named blocks in order.
\<close>

fun block_files ::
  "('x os_env_scheme) \<Rightarrow> string \<Rightarrow> string \<Rightarrow> int \<Rightarrow> int \<Rightarrow> nat \<Rightarrow> string list
     \<Rightarrow> (string \<times> string) list" where
  "block_files E lang dir chunkIdx blockNum c [] = []"
| "block_files E lang dir chunkIdx blockNum c (b # bs) =
     (test_filename E lang dir chunkIdx blockNum (UnixNano E c), b)
       # block_files E lang dir chunkIdx (blockNum + 1) (Suc c) bs"

definition store_all :: "(string \<times> string) list \<Rightarrow> (string \<rightharpoonup> string) \<Rightarrow> (string \<rightharpoonup> string)" where
  "store_all fbs d = fold (\<lambda>(f, b) d. d(f \<mapsto> b)) fbs d"

text \<open>
  An operating system on which the second write fails and leaves an empty file, and a
  model output with two code blocks.
\<close>

definition full_disk_os :: os_env where
  "full_disk_os = quiet_os\<lparr>WriteFile_err := (\<lambda>n. if n = 1 then Some ''disk full'' else None),
     WriteFile_left := (\<lambda>n. Some []),
     UnixNano := (\<lambda>n. 50 + int n)\<rparr>"

definition two_blocks :: string where
  "two_blocks = ''```a``` and ```b```''"

text \<open>
  A configuration and three backends for the examples. \<open>backend_of review gen\<close> is a
  run on an operating system where nothing fails and no interrupt arrives; \<open>review i r\<close>
  and \<open>gen i r\<close> are the answers to the review and the test-generation request for
  chunk \<open>i\<close> at attempt \<open>r\<close>. With \<open>slow_backend\<close> every review but the one of chunk 2
  runs into its deadline; with \<open>tests_down\<close> every review succeeds and every
  test-generation request is refused; with \<open>review_down\<close> it is the other way round;
  with \<open>all_down\<close> every request of both kinds is refused.
\<close>

definition go_config :: Config where
  "go_config = \<lparr>Model = ''gpt-4'', ChunkSize = 50, LLMProvider = ''openai'', LLMModel = [],
     Languages = [''go'' \<mapsto> \<lparr>Extension = ''.go'', ReviewPrompt = ''review'',
                                TestPrompt = ''tests''\<rparr>]\<rparr>"

definition timeout_text :: string where
  "timeout_text = ''request failed: context deadline exceeded''"

definition backend_of ::
  "(nat \<Rightarrow> nat \<Rightarrow> string \<times> error) \<Rightarrow> (nat \<Rightarrow> nat \<Rightarrow> string \<times> error) \<Rightarrow> run_env" where
  "backend_of review gen =
     \<lparr>WriteFile_err = (\<lambda>n. None), WriteFile_left = (\<lambda>n. None),
      UnixNano = (\<lambda>n. 50 + int n),
      filepath_Join = (\<lambda>d f. d @ ''/'' @ f), RunTests_err = (\<lambda>n. None),
      Create_err = (\<lambda>p. None),
      ReviewChunk_at = (\<lambda>i r prompt chunk lang. review i r),
      GenerateUnitTests_at = (\<lambda>i r prompt chunk lang. gen i r),
      interrupted_at = (\<lambda>i. False)\<rparr>"

definition slow_backend :: run_env where
  "slow_backend =
     backend_of (\<lambda>i r. if i = 2 then (''LGTM'', None) else ([], Some timeout_text))
       (\<lambda>i r. (''no tests needed'', None))"

definition tests_down :: run_env where
  "tests_down = backend_of (\<lambda>i r. (''LGTM'', None)) (\<lambda>i r. ([], Some ''connection refused''))"

definition review_down :: run_env where
  "review_down = backend_of (\<lambda>i r. ([], Some ''connection refused''))
                   (\<lambda>i r. (''func TestX'', None))"

definition all_down :: run_env where
  "all_down = backend_of (\<lambda>i r. ([], Some ''connection refused''))
                (\<lambda>i r. ([], Some ''connection refused''))"

text \<open>
  A resume run in the default mode: the ledger names chunk 2 and a chunk 7 that does
  not exist, the project has three chunks, and the uncommitted diff has five lines,
  cut into chunks of two.
\<close>

definition resume_flags :: main_flags where
  "resume_flags = \<lparr>flag_resume_failed = True, flag_mode = ''diff-uncommitted'', flag_file = []\<rparr>"

definition five_line_diff :: string where
  "five_line_diff = ''a.go'' @ newline # ''b'' @ newline # ''c'' @ newline # ''d'' @ newline # ''e''"

definition resume_env :: main_env where
  "resume_env = \<lparr>startup_passes = True, ledger_file = Inr (Inr [2, 7]),
     project_chunks = [''p0'', ''p1'', ''p2''], uncommitted_diff = Inr five_line_diff,
     branch_diff = Inr [], walked_files = Inr [], file_contents = (\<lambda>p. Inl ''no such file''),
     languages_order = [''go''], go_before_php = True\<rparr>"

definition two_line_chunks :: Config where
  "two_line_chunks = go_config\<lparr>ChunkSize := 2\<rparr>"

section \<open>The chunker: windows of the line list\<close>

lemma chop_Nil [simp]: "chop k [] = []"
  by (simp add: chop.simps)

lemma chop_step: "0 < k \<Longrightarrow> xs \<noteq> [] \<Longrightarrow> chop k xs = take k xs # chop k (drop k xs)"
  by (subst chop.simps) simp




lemma Join_nl_Cons: "ys \<noteq> [] \<Longrightarrow> Join_nl (x # ys) = x @ newline # Join_nl ys"
  by (cases ys) simp_all



lemma Split_nl_not_Nil [simp]: "Split_nl s \<noteq> []"
  by (induction s) (auto split: list.splits)

lemma Join_Split_nl: "Join_nl (Split_nl s) = s"
proof (induction s)
  case Nil then show ?case by simp
next
  case (Cons c cs)
  show ?case
  proof (cases "c = newline")
    case True
    then show ?thesis using Cons by (simp add: Join_nl_Cons)
  next
    case False
    obtain l ls where sp: "Split_nl cs = l # ls" by (cases "Split_nl cs") auto
    with Cons have "cs = Join_nl (l # ls)" by simp
    moreover have "Join_nl ((c # l) # ls) = c # Join_nl (l # ls)" by (cases ls) simp_all
    ultimately show ?thesis using False sp by simp
  qed
qed





lemma go_slice_window:
  assumes "0 \<le> i" "0 < k" "i < int (length lines)"
  shows "go_slice lines i (if i + k > int (length lines) then int (length lines) else i + k)
           = take (nat k) (drop (nat i) lines)"
  using assms by (auto simp add: go_slice_def)

lemma chunk_loop_chop:
  "0 < k \<Longrightarrow> 0 \<le> i \<Longrightarrow>
   chunk_loop lines k i chunks = Return (chunks @ map Join_nl (chop (nat k) (drop (nat i) lines)))"
proof (induction lines k i chunks rule: chunk_loop.induct)
  case (1 lines chunkSize i chunks)
  show ?case
  proof (cases "i < int (length lines)")
    case False
    then have "drop (nat i) lines = []" using 1(3) by simp
    with False show ?thesis by (subst chunk_loop.simps) simp
  next
    case True
    let ?e = "if i + chunkSize > int (length lines) then int (length lines) else i + chunkSize"
    have ge: "\<not> (i < 0 \<or> ?e < i)" using 1(2,3) True by auto
    have ne: "drop (nat i) lines \<noteq> []" using True 1(3) by simp
    have ih: "chunk_loop lines chunkSize (i + chunkSize) (chunks @ [Join_nl (go_slice lines i ?e)])
      = Return ((chunks @ [Join_nl (go_slice lines i ?e)]) @
          map Join_nl (chop (nat chunkSize) (drop (nat (i + chunkSize)) lines)))"
      using 1(1) [OF True refl] ge 1(2,3) by simp
    have dr: "drop (nat (i + chunkSize)) lines = drop (nat chunkSize) (drop (nat i) lines)"
      using 1(2,3) by (simp add: nat_add_distrib add.commute)
    have "chunk_loop lines chunkSize i chunks
      = chunk_loop lines chunkSize (i + chunkSize) (chunks @ [Join_nl (go_slice lines i ?e)])"
      using True ge 1(2) by (subst chunk_loop.simps) (simp add: Let_def)
    also note ih
    finally show ?thesis
      using go_slice_window [OF 1(3) 1(2) True] 1(2) ne dr
      by (simp add: chop_step)
  qed
qed

lemma ChunkDiff_chop:
  "1 \<le> k \<Longrightarrow> ChunkDiff body k = Return (map Join_nl (chop (nat k) (Split_nl body)))"
  by (simp add: ChunkDiff_def chunk_loop_chop)


lemma chop_short: "0 < k \<Longrightarrow> xs \<noteq> [] \<Longrightarrow> length xs \<le> k \<Longrightarrow> chop k xs = [xs]"
  by (simp add: chop_step)






text \<open>
  C4 (as the code has it). For every chunk size \<open>k \<ge> 1\<close>, the chunker applied to the
  empty body yields exactly one chunk, the empty one, and applied to a non-empty body
  of fewer than \<open>k\<close> lines yields exactly one chunk, the body itself.
\<close>

theorem chunker_small_body:
  assumes "1 \<le> k"
  shows "ChunkDiff [] k = Return [[]]
       \<and> GetFileChunks (\<lambda>p. Inr []) path k = Return ([[]], None)
       \<and> (body \<noteq> [] \<and> int (length (Split_nl body)) < k \<longrightarrow>
            ChunkDiff body k = Return [body]
          \<and> GetFileChunks (\<lambda>p. Inr body) path k = Return ([body], None))"
proof -
  from assms have k: "0 < nat k" by simp
  have one: "ChunkDiff b k = Return [b] \<and> GetFileChunks (\<lambda>p. Inr b) path k = Return ([b], None)"
    if "int (length (Split_nl b)) \<le> k" for b
  proof -
    from that have "length (Split_nl b) \<le> nat k" by linarith
    then have "chop (nat k) (Split_nl b) = [Split_nl b]"
      using k by (simp add: chop_short)
    then have "ChunkDiff b k = Return [b]"
      using assms by (simp add: ChunkDiff_chop Join_Split_nl)
    then show ?thesis by (simp add: GetFileChunks_def ChunkDiff_def)
  qed
  have "int (length (Split_nl [])) \<le> k" using assms by simp
  from one [OF this] one show ?thesis by simp
qed

theorem chunker_small_body_witness:
  "(1::int) \<le> 3
   \<and> ChunkDiff [] 3 = Return [[]]
   \<and> GetFileChunks (\<lambda>p. Inr []) ''f.go'' 3 = Return ([[]], None)
   \<and> ''a'' @ newline # ''b'' \<noteq> [] \<and> int (length (Split_nl (''a'' @ newline # ''b''))) < 3
   \<and> ChunkDiff (''a'' @ newline # ''b'') 3 = Return [''a'' @ newline # ''b'']
   \<and> GetFileChunks (\<lambda>p. Inr (''a'' @ newline # ''b'')) ''f.go'' 3
        = Return ([''a'' @ newline # ''b''], None)"
  using chunker_small_body [of 3 "''f.go''" "''a'' @ newline # ''b''"]
  by (simp add: newline_def)

text \<open>
  C4 as stated fails on the empty body: \<^verbatim>\<open>strings.Split("", "\n")\<close> has one element,
  so the loop runs once and the result has one chunk, not zero.
\<close>

theorem chunker_empty_body_counterexample:
  "ChunkDiff [] 1 = Return [[]] \<and> ChunkDiff [] 1 \<noteq> Return []"
  by (simp add: ChunkDiff_def chunk_loop.simps go_slice_def)

section \<open>The retry controller\<close>

lemma fn_after_0 [simp]: "fn_after fn 0 s = s"
  by (simp add: fn_after_def)

lemma fn_after_Suc: "fn_after fn (Suc j) s = snd (fn (fn_after fn j s))"
  by (simp add: fn_after_def)

lemma backoffs_0 [simp]: "backoffs b 0 = []"
  by (simp add: backoffs_def)

lemma backoffs_Suc: "backoffs b (Suc n) = backoffs b n @ [b * 2 ^ n]"
  by (simp add: backoffs_def)

lemma length_backoffs [simp]: "length (backoffs b n) = n"
  by (simp add: backoffs_def)

lemma retry_loop_failures:
  assumes "i + int n \<le> maxRetries"
    and "\<forall>j<n. fn_error fn j (fn_state r) \<noteq> None"
    and "\<forall>j<n. ctx (length (timers r) + j) = None"
  shows "retry_loop ctx maxRetries fn i backoff err r =
         retry_loop ctx maxRetries fn (i + int n) (backoff * 2 ^ n)
           (if n = 0 then err else fn_error fn (n - 1) (fn_state r))
           \<lparr>fn_state = fn_after fn n (fn_state r), calls = calls r + n,
            timers = timers r @ backoffs backoff n\<rparr>"
  using assms
proof (induction n)
  case 0
  then show ?case by (cases r) simp
next
  case (Suc n)
  let ?r = "\<lparr>fn_state = fn_after fn n (fn_state r), calls = calls r + n,
             timers = timers r @ backoffs backoff n\<rparr>"
  obtain e s' where call: "fn (fn_after fn n (fn_state r)) = (e, s')"
    by (cases "fn (fn_after fn n (fn_state r))")
  from Suc.prems(2) call obtain x where e: "e = Some x" by (auto simp add: fn_error_def)
  from Suc.prems(3) have wait: "ctx (length (timers r) + n) = None" by simp
  from Suc.prems(1) have lt: "i + int n < maxRetries" by simp
  have "retry_loop ctx maxRetries fn i backoff err r =
        retry_loop ctx maxRetries fn (i + int n) (backoff * 2 ^ n)
          (if n = 0 then err else fn_error fn (n - 1) (fn_state r)) ?r"
    using Suc by simp
  also have "\<dots> = retry_loop ctx maxRetries fn (i + int n + 1) (backoff * 2 ^ n * 2) e
          (?r\<lparr>fn_state := s', calls := Suc (calls ?r),
              timers := timers ?r @ [backoff * 2 ^ n]\<rparr>)"
    using lt call e wait by (subst retry_loop.simps) (simp add: Let_def)
  finally show ?case
    using call by (simp add: fn_after_Suc fn_error_def backoffs_Suc ac_simps)
qed

lemma retry_loop_done:
  "maxRetries \<le> i \<Longrightarrow> retry_loop ctx maxRetries fn i backoff err r = (err, r)"
  by (subst retry_loop.simps) simp

text \<open>
  C1 (as the code has it). For every \<open>m \<ge> 1\<close> and every operation that fails on each
  of its first \<open>m\<close> calls, when the context is not done during any wait,
  retryWithBackoff calls the operation exactly \<open>m\<close> times, waits exactly \<open>m\<close> times
  (once after every failed call, the last one too, for one second doubled each time)
  and returns the error of the last call.
\<close>

theorem retry_all_fail:
  assumes "1 \<le> m"
    and "\<forall>j < nat m. fn_error fn j s \<noteq> None"
    and "\<forall>j < nat m. ctx j = None"
  shows "retryWithBackoff ctx m fn s =
           (fn_error fn (nat m - 1) s,
            \<lparr>fn_state = fn_after fn (nat m) s, calls = nat m,
             timers = backoffs time_Second (nat m)\<rparr>)"
proof -
  let ?r = "\<lparr>fn_state = s, calls = 0, timers = []\<rparr>"
  have "retry_loop ctx m fn 0 time_Second None ?r =
        retry_loop ctx m fn (0 + int (nat m)) (time_Second * 2 ^ nat m)
          (if nat m = 0 then None else fn_error fn (nat m - 1) (fn_state ?r))
          \<lparr>fn_state = fn_after fn (nat m) (fn_state ?r), calls = calls ?r + nat m,
           timers = timers ?r @ backoffs time_Second (nat m)\<rparr>"
    using assms by (intro retry_loop_failures) simp_all
  then show ?thesis
    using assms(1) by (simp add: retryWithBackoff_def retry_loop_done)
qed

theorem retry_all_fail_witness:
  "retryWithBackoff (\<lambda>j. None) 2 (\<lambda>s. (Some ''boom'', Suc s)) (0::nat) =
     (Some ''boom'',
      \<lparr>fn_state = 2, calls = 2, timers = [time_Second, time_Second * 2]\<rparr>)"
  using retry_all_fail [of 2 "\<lambda>s. (Some ''boom'', Suc s)" "0::nat" "\<lambda>j. None"]
  by (simp add: fn_error_def fn_after_def backoffs_def eval_nat_numeral)

text \<open>
  C1 as stated fails already for \<open>m = 1\<close>: after the only call has failed the
  controller still arms the timer and waits, so it waits once, not \<open>m - 1 = 0\<close> times.
\<close>

theorem retry_waits_after_last_attempt_counterexample:
  "calls (snd (retryWithBackoff (\<lambda>j. None) 1 (\<lambda>s. (Some ''boom'', s)) ())) = 1
   \<and> length (timers (snd (retryWithBackoff (\<lambda>j. None) 1 (\<lambda>s. (Some ''boom'', s)) ()))) = 1
   \<and> length (timers (snd (retryWithBackoff (\<lambda>j. None) 1 (\<lambda>s. (Some ''boom'', s)) ())))
        \<noteq> 1 - 1"
  by (simp add: retryWithBackoff_def retry_loop.simps)

text \<open>
  C6. When the calls number \<open>0\<close> to \<open>k\<close> of the operation fail, the waits before the
  \<open>k\<close>-th one run to their end, and the context is done during the wait that follows
  call \<open>k\<close>, retryWithBackoff returns the context's error at once: the operation has
  been called \<open>k + 1\<close> times and is not called again, whatever the budget \<open>m > k\<close>.
\<close>

theorem retry_cancelled_in_wait:
  assumes "int k < m"
    and "\<forall>j \<le> k. fn_error fn j s \<noteq> None"
    and "\<forall>j < k. ctx j = None"
    and "ctx k = Some e"
  shows "retryWithBackoff ctx m fn s =
           (Some e,
            \<lparr>fn_state = fn_after fn (Suc k) s, calls = Suc k,
             timers = backoffs time_Second (Suc k)\<rparr>)"
proof -
  let ?r = "\<lparr>fn_state = s, calls = 0, timers = []\<rparr>"
  let ?r' = "\<lparr>fn_state = fn_after fn k s, calls = k, timers = backoffs time_Second k\<rparr>"
  obtain e' s' where call: "fn (fn_after fn k s) = (e', s')"
    by (cases "fn (fn_after fn k s)")
  from assms(2) call obtain x where e': "e' = Some x" by (auto simp add: fn_error_def)
  have "retry_loop ctx m fn 0 time_Second None ?r =
        retry_loop ctx m fn (0 + int k) (time_Second * 2 ^ k)
          (if k = 0 then None else fn_error fn (k - 1) (fn_state ?r))
          \<lparr>fn_state = fn_after fn k (fn_state ?r), calls = calls ?r + k,
           timers = timers ?r @ backoffs time_Second k\<rparr>"
    using assms by (intro retry_loop_failures) simp_all
  also have "\<dots> = (Some e, ?r'\<lparr>fn_state := s', calls := Suc k,
                       timers := backoffs time_Second k @ [time_Second * 2 ^ k]\<rparr>)"
    using assms(1,4) call e' by (subst retry_loop.simps) (simp add: Let_def)
  finally show ?thesis
    using call by (simp add: retryWithBackoff_def fn_after_Suc backoffs_Suc)
qed

theorem retry_cancelled_in_wait_witness:
  "retryWithBackoff (\<lambda>j. if j = 1 then Some ''context deadline exceeded'' else None) 5
     (\<lambda>s. (Some ''boom'', Suc s)) (0::nat) =
     (Some ''context deadline exceeded'',
      \<lparr>fn_state = 2, calls = 2, timers = [time_Second, time_Second * 2]\<rparr>)"
  using retry_cancelled_in_wait [of 1 5 "\<lambda>s. (Some ''boom'', Suc s)" "0::nat"
      "\<lambda>j. if j = 1 then Some ''context deadline exceeded'' else None"
      "''context deadline exceeded''"]
  by (simp add: fn_error_def fn_after_def backoffs_def eval_nat_numeral)

section \<open>The backend client and a response without choices\<close>

text \<open>
  C2 (as the code has it). A response with zero choices is not an error for the hosted
  variant, for both request kinds, nor for the test-generation request of the local
  variant: the call returns the text \<^verbatim>\<open>No response from LLM\<close> and a nil error.
\<close>

theorem zero_choices_placeholder:
  "(provider l = ''openai'' \<and>
      openaiClient l \<lparr>req_model = model l, req_system = prompt,
        req_user = review_message lang code, req_max_tokens = 2048\<rparr> = Inr []
      \<longrightarrow> ReviewChunk l ctx prompt code lang = (''No response from LLM'', None))
   \<and> (provider l = ''openai'' \<and>
      openaiClient l \<lparr>req_model = model l, req_system = prompt,
        req_user = tests_message lang code, req_max_tokens = 2048\<rparr> = Inr []
      \<longrightarrow> GenerateUnitTests l ctx prompt code lang = (''No response from LLM'', None))
   \<and> (provider l \<noteq> ''openai'' \<and>
      httpClient l \<lparr>req_model = model l, req_system = prompt,
        req_user = tests_message lang code, req_max_tokens = 2048\<rparr> 0 = Reply 200 (Inr [])
      \<longrightarrow> GenerateUnitTests l ctx prompt code lang = (''No response from LLM'', None))"
  by (simp add: ReviewChunk_def GenerateUnitTests_def lmstudioChatTest_def)

theorem zero_choices_placeholder_witness:
  "ReviewChunk hosted_silent (\<lambda>j. None) ''p'' ''c'' ''go'' = (''No response from LLM'', None)
   \<and> GenerateUnitTests hosted_silent (\<lambda>j. None) ''p'' ''c'' ''go'' = (''No response from LLM'', None)
   \<and> GenerateUnitTests local_silent (\<lambda>j. None) ''p'' ''c'' ''go'' = (''No response from LLM'', None)"
  using zero_choices_placeholder [of hosted_silent "''p''" "''go''" "''c''" "\<lambda>j. None"]
    zero_choices_placeholder [of local_silent "''p''" "''go''" "''c''" "\<lambda>j. None"]
  by (simp add: hosted_silent_def local_silent_def)

text \<open>
  C2 as stated fails twice. The review request of the local variant classifies a
  response without choices as an error (and retries it); and where the call does not
  fail, its result is not empty but the text above.
\<close>

theorem zero_choices_counterexample:
  "ReviewChunk local_silent (\<lambda>j. None) ''p'' ''c'' ''go'' = ([], Some ''No response from LLM'')
   \<and> fst (ReviewChunk hosted_silent (\<lambda>j. None) ''p'' ''c'' ''go'') \<noteq> []"
  by (simp add: ReviewChunk_def lmstudioChat_def retryWithBackoff_def retry_loop.simps
      lmstudio_attempt_def hosted_silent_def local_silent_def)

text \<open>
  The review request of the local variant in general: when the three POSTs it may send
  are all answered with status 200 and no choices, it returns an error, however the
  waits between them end.
\<close>

lemma local_review_zero_choices:
  assumes "provider l \<noteq> ''openai''"
    and "\<forall>n < 3. httpClient l \<lparr>req_model = model l, req_system = prompt,
        req_user = review_message lang code, req_max_tokens = 2048\<rparr> n = Reply 200 (Inr [])"
  shows "ReviewChunk l ctx prompt code lang = ([], Some ''No response from LLM'')"
proof -
  let ?srv = "httpClient l \<lparr>req_model = model l, req_system = prompt,
        req_user = review_message lang code, req_max_tokens = 2048\<rparr>"
  have s0: "?srv 0 = Reply 200 (Inr [])" and s1: "?srv (Suc 0) = Reply 200 (Inr [])"
    and s2: "?srv (Suc (Suc 0)) = Reply 200 (Inr [])"
    using assms(2) by simp_all
  show ?thesis
    using assms(1) s0 s1 s2
    by (simp add: ReviewChunk_def lmstudioChat_def retryWithBackoff_def retry_loop.simps
        lmstudio_attempt_def Let_def split: option.splits)
qed

section \<open>The test artifact manager\<close>

text \<open>What \<^verbatim>\<open>strings.Index\<close> finds is an occurrence, and it finds one when there is one.\<close>

lemma strings_Index_split:
  "strings_Index s sub = Some i \<Longrightarrow> s = take i s @ sub @ drop (i + length sub) s"
proof (induction s arbitrary: i)
  case Nil
  then show ?case by (simp split: if_splits)
next
  case (Cons c cs)
  show ?case
  proof (cases "prefix sub (c # cs)")
    case True
    then obtain zs where "c # cs = sub @ zs" by (auto simp add: prefix_def)
    moreover from True Cons.prems have "i = 0" by simp
    ultimately show ?thesis by simp
  next
    case False
    with Cons.prems obtain j where j: "strings_Index cs sub = Some j" "i = Suc j" by auto
    from Cons.IH [OF j(1)] j(2) show ?thesis by simp
  qed
qed

lemma strings_Index_found: "strings_Index (a @ sub @ c) sub \<noteq> None"
proof (induction a)
  case Nil
  have p: "prefix sub (sub @ c)" by simp
  show ?case
  proof (cases "sub @ c")
    case Nil
    then show ?thesis by simp
  next
    case (Cons x xs)
    with p have "prefix sub (x # xs)" by simp
    with Cons show ?thesis by simp
  qed
next
  case (Cons x a)
  then show ?case by simp
qed

lemma length_fence [simp]: "length fence = 3"
  by (simp add: fence_def)

lemma no_fence_no_block:
  assumes "strings_Index text fence = None"
  shows "\<not> has_code_block text"
proof
  assume "has_code_block text"
  then obtain a b c where "text = a @ fence @ (b @ fence @ c)"
    by (auto simp add: has_code_block_def)
  with strings_Index_found [of a fence "b @ fence @ c"] assms show False by simp
qed

text \<open>
  Whether a text holds a code block can be computed: it does when a fence is found
  and another one is found after it.
\<close>

lemma strings_Index_first:
  "strings_Index (a @ sub @ c) sub = Some i \<Longrightarrow> i \<le> length a"
proof (induction a arbitrary: i)
  case Nil
  have p: "prefix sub (sub @ c)" by simp
  from Nil show ?case
  proof (cases "sub @ c")
    case Nil
    with \<open>strings_Index ([] @ sub @ c) sub = Some i\<close> show ?thesis by (simp split: if_splits)
  next
    case (Cons x xs)
    with p have "prefix sub (x # xs)" by simp
    with Cons \<open>strings_Index ([] @ sub @ c) sub = Some i\<close> show ?thesis by simp
  qed
next
  case (Cons x a)
  then show ?case by (auto split: if_splits)
qed

lemma has_code_block_scan:
  "has_code_block text =
     (case strings_Index text fence of
        None \<Rightarrow> False
      | Some i \<Rightarrow> strings_Index (drop (i + 3) text) fence \<noteq> None)"
proof (cases "strings_Index text fence")
  case None
  then show ?thesis using no_fence_no_block by simp
next
  case (Some i)
  have "has_code_block text = (strings_Index (drop (i + 3) text) fence \<noteq> None)"
  proof
    assume "has_code_block text"
    then obtain a b c where t: "text = a @ fence @ (b @ fence @ c)"
      by (auto simp add: has_code_block_def)
    with Some have "i \<le> length a" using strings_Index_first [of a fence "b @ fence @ c" i] by simp
    then have "drop (i + 3) text = drop (i + 3) (a @ fence @ b) @ fence @ c"
      unfolding t by simp
    then show "strings_Index (drop (i + 3) text) fence \<noteq> None"
      using strings_Index_found [of "drop (i + 3) (a @ fence @ b)" fence c] by simp
  next
    assume "strings_Index (drop (i + 3) text) fence \<noteq> None"
    then obtain j where j: "strings_Index (drop (i + 3) text) fence = Some j" by auto
    from strings_Index_split [OF Some]
    have "text = take i text @ fence @ drop (i + 3) text" by simp
    moreover from strings_Index_split [OF j]
    obtain b c where "drop (i + 3) text = b @ fence @ c" by blast
    ultimately show "has_code_block text" unfolding has_code_block_def by metis
  qed
  with Some show ?thesis by simp
qed

lemma unclosed_fence_is_no_block: "\<not> has_code_block ''```go unclosed''"
  by (simp add: has_code_block_scan fence_def)

text \<open>
  C8. For every text without a fenced code block, every language and every
  directory, ParseAndWriteTests returns the error \<^verbatim>\<open>no code blocks found in LLM test
  output\<close> with an empty list of files, and leaves the world as it was: it writes no
  file (it does not call \<^verbatim>\<open>os.WriteFile\<close> and does not read the clock).
\<close>

theorem no_code_blocks_error:
  assumes "\<not> has_code_block testGen"
  shows "ParseAndWriteTests E testGen lang dir chunkIdx w =
           (([], Some ''no code blocks found in LLM test output''), w)"
proof (cases "strings_Index testGen fence")
  case None
  then show ?thesis
    by (simp add: ParseAndWriteTests_def pw_loop.simps pw_finish_def)
next
  case (Some cs)
  have "strings_Index (drop (cs + 3) testGen) fence = None"
  proof (rule ccontr)
    assume "strings_Index (drop (cs + 3) testGen) fence \<noteq> None"
    then obtain ce where ce: "strings_Index (drop (cs + 3) testGen) fence = Some ce" by auto
    from strings_Index_split [OF Some]
    have "testGen = take cs testGen @ fence @ drop (cs + 3) testGen" by simp
    moreover from strings_Index_split [OF ce]
    obtain b c where "drop (cs + 3) testGen = b @ fence @ c" by blast
    ultimately have "has_code_block testGen"
      unfolding has_code_block_def by metis
    with assms show False by simp
  qed
  with Some show ?thesis
    by (simp add: ParseAndWriteTests_def pw_loop.simps pw_finish_def)
qed

theorem no_code_blocks_error_witness:
  "\<not> has_code_block ''no tests here''
   \<and> ParseAndWriteTests quiet_os ''no tests here'' ''go'' ''.'' 0 empty_world =
       (([], Some ''no code blocks found in LLM test output''), empty_world)"
proof -
  have "\<not> has_code_block ''no tests here''"
    by (rule no_fence_no_block) (simp add: fence_def)
  with no_code_blocks_error [of "''no tests here''" quiet_os "''go''" "''.''" 0 empty_world]
  show ?thesis by simp
qed

lemma store_all_Nil [simp]: "store_all [] d = d"
  by (simp add: store_all_def)

lemma store_all_Cons [simp]: "store_all ((f, b) # fbs) d = store_all fbs (d(f \<mapsto> b))"
  by (simp add: store_all_def)

lemma dom_store_all: "dom (store_all fbs d) = dom d \<union> fst ` set fbs"
proof (induction fbs arbitrary: d)
  case Nil
  show ?case by simp
next
  case (Cons p fbs)
  obtain f b where p: "p = (f, b)" by (cases p)
  have "dom (d(f \<mapsto> b)) = insert f (dom d)" by simp
  then have "dom (store_all ((f, b) # fbs) d) = insert f (dom d) \<union> fst ` set fbs"
    by (simp only: store_all_Cons Cons.IH)
  then show ?case by (simp add: p)
qed

lemma dom_left_behind: "dom d \<subseteq> dom (left_behind E n name d)"
  by (auto simp add: left_behind_def split: option.splits)

lemma pw_loop_write_fails:
  assumes "lang = ''go'' \<or> lang = ''php''"
    and "n < length (scan_blocks testGen start)"
    and "\<forall>j<n. WriteFile_err E (writes w + j) = None"
    and "WriteFile_err E (writes w + n) = Some e"
  shows "pw_loop E testGen lang dir chunkIdx start blockNum files w =
          ((files @ map fst (take n (block_files E lang dir chunkIdx blockNum (clock_reads w)
                                        (scan_blocks testGen start))),
            Some e),
           w\<lparr>disk := left_behind E (writes w + n)
                       (fst (block_files E lang dir chunkIdx blockNum (clock_reads w)
                               (scan_blocks testGen start) ! n))
                       (store_all (take n (block_files E lang dir chunkIdx blockNum
                                             (clock_reads w) (scan_blocks testGen start)))
                          (disk w)),
             writes := writes w + n + 1, clock_reads := clock_reads w + n + 1\<rparr>)"
  using assms(2-)
proof (induction n arbitrary: start blockNum files w)
  case 0
  from 0(1) obtain cs where cs: "strings_Index (drop start testGen) fence = Some cs"
    by (subst (asm) scan_blocks.simps) (auto split: option.splits)
  from 0(1) cs obtain ce where ce: "strings_Index (drop (cs + start + 3) testGen) fence = Some ce"
    by (subst (asm) scan_blocks.simps) (auto split: option.splits simp add: Let_def)
  have sb: "scan_blocks testGen start =
      take ce (drop (cs + start + 3) testGen) # scan_blocks testGen (ce + (cs + start + 3) + 3)"
    using cs ce by (subst scan_blocks.simps) (simp add: Let_def)
  from cs ce 0(3) assms(1) show ?case
    unfolding sb by (subst pw_loop.simps) (simp add: Let_def WriteFile_def)
next
  case (Suc n)
  from Suc.prems(1) obtain cs where cs: "strings_Index (drop start testGen) fence = Some cs"
    by (subst (asm) scan_blocks.simps) (auto split: option.splits)
  from Suc.prems(1) cs obtain ce
    where ce: "strings_Index (drop (cs + start + 3) testGen) fence = Some ce"
    by (subst (asm) scan_blocks.simps) (auto split: option.splits simp add: Let_def)
  let ?next = "ce + (cs + start + 3) + 3"
  let ?b = "take ce (drop (cs + start + 3) testGen)"
  let ?f = "test_filename E lang dir chunkIdx blockNum (UnixNano E (clock_reads w))"
  let ?w = "w\<lparr>clock_reads := Suc (clock_reads w), disk := (disk w)(?f \<mapsto> ?b),
              writes := Suc (writes w)\<rparr>"
  have sb: "scan_blocks testGen start = ?b # scan_blocks testGen ?next"
    using cs ce by (subst scan_blocks.simps) (simp add: Let_def)
  from Suc.prems(2) have w0: "WriteFile_err E (writes w) = None" by force
  have step: "pw_loop E testGen lang dir chunkIdx start blockNum files w =
              pw_loop E testGen lang dir chunkIdx ?next (blockNum + 1) (files @ [?f]) ?w"
    using cs ce w0 assms(1) by (subst pw_loop.simps) (simp add: Let_def WriteFile_def)
  have len: "n < length (scan_blocks testGen ?next)" using Suc.prems(1) sb by simp
  have ok: "\<forall>j<n. WriteFile_err E (writes ?w + j) = None"
    using Suc.prems(2) by (auto simp add: less_Suc_eq_0_disj)
  have bad: "WriteFile_err E (writes ?w + n) = Some e" using Suc.prems(3) by simp
  show ?case
    unfolding step Suc.IH [OF len ok bad] sb
    by simp
qed

lemma length_block_files [simp]:
  "length (block_files E lang dir chunkIdx blockNum c bs) = length bs"
  by (induction bs arbitrary: blockNum c) simp_all

lemma unsupported_language_first_block:
  assumes "lang \<noteq> ''go''" "lang \<noteq> ''php''" "scan_blocks testGen 0 \<noteq> []"
  shows "ParseAndWriteTests E testGen lang dir chunkIdx w =
           (([], Some (''test writing not supported for language: '' @ lang)), w)"
proof -
  from assms(3) obtain cs where cs: "strings_Index (drop 0 testGen) fence = Some cs"
    by (subst (asm) scan_blocks.simps) (auto split: option.splits)
  from assms(3) cs obtain ce where ce: "strings_Index (drop (cs + 0 + 3) testGen) fence = Some ce"
    by (subst (asm) scan_blocks.simps) (auto split: option.splits simp add: Let_def)
  from cs ce assms(1,2) show ?thesis
    unfolding ParseAndWriteTests_def by (subst pw_loop.simps) (simp add: Let_def)
qed

text \<open>
  C10. When the writes for the blocks before the \<open>n\<close>-th succeed and the write for the
  \<open>n\<close>-th block (from 0) fails with \<open>e\<close>, ParseAndWriteTests stops and returns \<open>e\<close>
  together with the names of the \<open>n\<close> files written before; those files are on the
  disk when it returns, and no file that was on the disk has been removed. The disk
  then holds the blocks written before and whatever the failed write has left at the
  path of the \<open>n\<close>-th file. When the
  language has no naming convention, the call stops at the first block with the error
  \<^verbatim>\<open>test writing not supported for language\<close> and the empty list (the language does not
  change during the call, so this happens at block 0 or never), and writes nothing.
\<close>

theorem write_failure_keeps_earlier_files:
  "((lang = ''go'' \<or> lang = ''php'') \<and> n < length (scan_blocks testGen 0)
      \<and> (\<forall>j<n. WriteFile_err E (writes w + j) = None)
      \<and> WriteFile_err E (writes w + n) = Some e
    \<longrightarrow> (\<exists>files w'.
          ParseAndWriteTests E testGen lang dir chunkIdx w = ((files, Some e), w')
        \<and> length files = n
        \<and> files = map fst (take n (block_files E lang dir chunkIdx 0 (clock_reads w)
                                      (scan_blocks testGen 0)))
        \<and> disk w' = left_behind E (writes w + n)
                      (fst (block_files E lang dir chunkIdx 0 (clock_reads w)
                              (scan_blocks testGen 0) ! n))
                      (store_all (take n (block_files E lang dir chunkIdx 0 (clock_reads w)
                                            (scan_blocks testGen 0))) (disk w))
        \<and> set files \<subseteq> dom (disk w')
        \<and> dom (disk w) \<subseteq> dom (disk w')))
   \<and> (lang \<noteq> ''go'' \<and> lang \<noteq> ''php'' \<and> scan_blocks testGen 0 \<noteq> []
    \<longrightarrow> ParseAndWriteTests E testGen lang dir chunkIdx w =
          (([], Some (''test writing not supported for language: '' @ lang)), w))"
proof (intro conjI impI)
  assume h: "(lang = ''go'' \<or> lang = ''php'') \<and> n < length (scan_blocks testGen 0)
      \<and> (\<forall>j<n. WriteFile_err E (writes w + j) = None)
      \<and> WriteFile_err E (writes w + n) = Some e"
  let ?all = "block_files E lang dir chunkIdx 0 (clock_reads w) (scan_blocks testGen 0)"
  let ?fbs = "take n ?all"
  let ?d = "left_behind E (writes w + n) (fst (?all ! n)) (store_all ?fbs (disk w))"
  let ?w = "w\<lparr>disk := ?d, writes := writes w + n + 1, clock_reads := clock_reads w + n + 1\<rparr>"
  from h have run: "ParseAndWriteTests E testGen lang dir chunkIdx w = ((map fst ?fbs, Some e), ?w)"
    unfolding ParseAndWriteTests_def
    using pw_loop_write_fails [of lang n testGen 0 E w e dir chunkIdx 0 "[]"] by simp
  have len: "length (map fst ?fbs) = n" using h by simp
  have "dom (store_all ?fbs (disk w)) \<subseteq> dom ?d" by (rule dom_left_behind)
  then have d: "dom (disk w) \<union> fst ` set ?fbs \<subseteq> dom (disk ?w)"
    by (simp add: dom_store_all)
  show "\<exists>files w'.
          ParseAndWriteTests E testGen lang dir chunkIdx w = ((files, Some e), w')
        \<and> length files = n
        \<and> files = map fst ?fbs
        \<and> disk w' = ?d
        \<and> set files \<subseteq> dom (disk w')
        \<and> dom (disk w) \<subseteq> dom (disk w')"
  proof (intro exI conjI)
    show "ParseAndWriteTests E testGen lang dir chunkIdx w = ((map fst ?fbs, Some e), ?w)"
      by (rule run)
    show "length (map fst ?fbs) = n" by (rule len)
    show "map fst ?fbs = map fst ?fbs" by simp
    show "disk ?w = ?d" by simp
    show "set (map fst ?fbs) \<subseteq> dom (disk ?w)" using d by auto
    show "dom (disk w) \<subseteq> dom (disk ?w)" using d by auto
  qed
next
  assume "lang \<noteq> ''go'' \<and> lang \<noteq> ''php'' \<and> scan_blocks testGen 0 \<noteq> []"
  then show "ParseAndWriteTests E testGen lang dir chunkIdx w =
          (([], Some (''test writing not supported for language: '' @ lang)), w)"
    by (simp add: unsupported_language_first_block)
qed

lemma scan_two_blocks: "scan_blocks two_blocks 0 = [''a'', ''b'']"
  by (simp add: scan_blocks.simps two_blocks_def fence_def)

theorem write_failure_keeps_earlier_files_witness:
  "fst (ParseAndWriteTests full_disk_os two_blocks ''go'' ''out'' 7 empty_world) =
      ([''out/llm_generated_test_7_0_50.go''], Some ''disk full'')
   \<and> disk (snd (ParseAndWriteTests full_disk_os two_blocks ''go'' ''out'' 7 empty_world)) =
      [''out/llm_generated_test_7_0_50.go'' \<mapsto> ''a'', ''out/llm_generated_test_7_1_51.go'' \<mapsto> []]
   \<and> ParseAndWriteTests full_disk_os two_blocks ''rust'' ''out'' 7 empty_world =
      (([], Some ''test writing not supported for language: rust''), empty_world)"
proof -
  let ?all = "block_files full_disk_os ''go'' ''out'' 7 0 (clock_reads empty_world)
                (scan_blocks two_blocks 0)"
  have first: "\<exists>files w'.
       ParseAndWriteTests full_disk_os two_blocks ''go'' ''out'' 7 empty_world
         = ((files, Some ''disk full''), w')
     \<and> length files = 1
     \<and> files = map fst (take 1 ?all)
     \<and> disk w' = left_behind full_disk_os (writes empty_world + 1) (fst (?all ! 1))
                    (store_all (take 1 ?all) (disk empty_world))
     \<and> set files \<subseteq> dom (disk w')
     \<and> dom (disk empty_world) \<subseteq> dom (disk w')"
    using write_failure_keeps_earlier_files
      [of "''go''" 1 two_blocks full_disk_os empty_world "''disk full''" "''out''" 7]
    by (simp add: scan_two_blocks full_disk_os_def empty_world_def)
  have second: "ParseAndWriteTests full_disk_os two_blocks ''rust'' ''out'' 7 empty_world =
      (([], Some ''test writing not supported for language: rust''), empty_world)"
    using write_failure_keeps_earlier_files
      [of "''rust''" 1 two_blocks full_disk_os empty_world "''disk full''" "''out''" 7]
    by (simp add: scan_two_blocks)
  have names: "?all = [(''out/llm_generated_test_7_0_50.go'', ''a''),
                       (''out/llm_generated_test_7_1_51.go'', ''b'')]"
    by (simp add: scan_two_blocks empty_world_def test_filename_def full_disk_os_def quiet_os_def
        show_int_def show_nat.simps digit_char_def)
  from first obtain files w' where
    run: "ParseAndWriteTests full_disk_os two_blocks ''go'' ''out'' 7 empty_world
         = ((files, Some ''disk full''), w')"
    and files: "files = map fst (take 1 ?all)"
    and disk: "disk w' = left_behind full_disk_os (writes empty_world + 1) (fst (?all ! 1))
                    (store_all (take 1 ?all) (disk empty_world))"
    by blast
  have d0: "disk empty_world = Map.empty" by (simp add: empty_world_def)
  from files have f: "files = [''out/llm_generated_test_7_0_50.go'']"
    unfolding names by simp
  from disk have d: "disk w' = [''out/llm_generated_test_7_0_50.go'' \<mapsto> ''a'',
                               ''out/llm_generated_test_7_1_51.go'' \<mapsto> []]"
    unfolding names d0 by (simp add: left_behind_def full_disk_os_def)
  from run f d second show ?thesis by simp
qed

section \<open>The review orchestrator\<close>

lemma timeout_text_deadline: "strings_Contains timeout_text deadline_exceeded"
  by (simp add: strings_Contains_def timeout_text_def deadline_exceeded_def)

lemma refused_not_deadline: "\<not> strings_Contains ''connection refused'' deadline_exceeded"
  by (simp add: strings_Contains_def deadline_exceeded_def)

text \<open>
  An attempt loop whose calls all fail ends with the result of the last call; one
  with a call that succeeds ends with the result of the first such call and no error.
\<close>

lemma attempt_loop_exhausted:
  assumes "retries < maxRetries" "0 \<le> retries"
    and "\<forall>r. nat retries \<le> r \<and> r < nat maxRetries \<longrightarrow> snd (call r) \<noteq> None"
  shows "fst (attempt_loop call report maxRetries retries cur out) = call (nat maxRetries - 1)"
  using assms
proof (induction call report maxRetries retries cur out rule: attempt_loop.induct)
  case (1 call report maxRetries retries cur out)
  obtain v e where c: "call (nat retries) = (v, Some e)"
    using 1(2,3,4) by (cases "call (nat retries)") (force)
  show ?case
  proof (cases "retries + 1 < maxRetries")
    case True
    have "fst (attempt_loop call report maxRetries (retries + 1) (v, Some e)
              (out @ [report (retries + 1) e, Sleep 2])) = call (nat maxRetries - 1)"
      using 1(1) [OF 1(2) c [symmetric] refl True] 1(3,4) by (simp add: nat_add_distrib)
    then show ?thesis using 1(2) c by (subst attempt_loop.simps) simp
  next
    case False
    with 1(2) have eq: "maxRetries = retries + 1" by simp
    have "attempt_loop call report maxRetries (retries + 1) (v, Some e)
              (out @ [report (retries + 1) e, Sleep 2]) = ((v, Some e), out @ [report (retries + 1) e, Sleep 2])"
      using eq by (subst attempt_loop.simps) simp
    then show ?thesis using 1(2,3) c eq by (subst attempt_loop.simps) (simp add: nat_add_distrib)
  qed
qed

lemma attempt_loop_succeeds:
  assumes "int r0 < maxRetries" "0 \<le> retries" "nat retries \<le> r0"
    and "snd (call r0) = None"
    and "\<forall>r. nat retries \<le> r \<and> r < r0 \<longrightarrow> snd (call r) \<noteq> None"
  shows "fst (attempt_loop call report maxRetries retries cur out) = (fst (call r0), None)"
  using assms
proof (induction call report maxRetries retries cur out rule: attempt_loop.induct)
  case (1 call report maxRetries retries cur out)
  from 1(2,3,4) have lt: "retries < maxRetries" by linarith
  show ?case
  proof (cases "nat retries = r0")
    case True
    with 1(5) obtain v where "call (nat retries) = (v, None)"
      by (cases "call (nat retries)") auto
    with lt True show ?thesis by (subst attempt_loop.simps) auto
  next
    case False
    with 1(4) have less: "nat retries < r0" by simp
    with 1(6) obtain v e where c: "call (nat retries) = (v, Some e)"
      by (cases "call (nat retries)") force
    have "fst (attempt_loop call report maxRetries (retries + 1) (v, Some e)
              (out @ [report (retries + 1) e, Sleep 2])) = (fst (call r0), None)"
      using 1(1) [OF lt c [symmetric] refl 1(2)] 1(3,5,6) less by (simp add: nat_add_distrib)
    then show ?thesis using lt c by (subst attempt_loop.simps) simp
  qed
qed

lemma failedChunks_count_timeout [simp]: "failedChunks (count_timeout s) = failedChunks s"
  by (simp add: count_timeout_def Let_def)

lemma after_tests_keeps_ledger: "failedChunks (snd (after_tests i err s)) = failedChunks s"
  by (simp add: after_tests_def Let_def split: option.splits)

text \<open>
  The end of an iteration whose test generation fails at every attempt, for any
  review that did not end in a deadline error (so that test generation is reached).
\<close>

lemma after_tests_failed:
  "after_tests i (Some e) s = (True, s') \<Longrightarrow>
     failedChunks s' = failedChunks s \<and> last (printed s') = TestGenError (i + 1) e
     \<and> os s' = os s \<and> writtenFiles s' = writtenFiles s \<and> totalTests s' = totalTests s"
  by (auto simp add: after_tests_def count_timeout_def Let_def split: if_splits)

lemma process_chunk_tests_exhausted:
  assumes al: "attempt_loop (\<lambda>r. ReviewChunk_at E i r (ReviewPrompt langCfg) chunk lang)
                 (ReviewAttemptError (i + 1) maxRetries) maxRetries 0 ([], None)
                 (printed s @ [Reviewing (i + 1) n lang]) = ((review, err), out1)"
    and reached: "\<forall>e. err = Some e \<longrightarrow> \<not> strings_Contains e deadline_exceeded"
    and pos: "1 \<le> maxRetries"
    and fails: "\<forall>r < nat maxRetries.
                  snd (GenerateUnitTests_at E i r (TestPrompt langCfg) chunk lang) \<noteq> None"
    and last: "snd (GenerateUnitTests_at E i (nat maxRetries - 1) (TestPrompt langCfg) chunk lang)
                 = Some e2"
  shows "failedChunks (process_chunk E langCfg lang writeTests dir maxRetries n i chunk s)
           = failedChunks s
       \<and> last (printed (process_chunk E langCfg lang writeTests dir maxRetries n i chunk s))
           = TestGenError (i + 1) e2
       \<and> os (process_chunk E langCfg lang writeTests dir maxRetries n i chunk s) = os s
       \<and> writtenFiles (process_chunk E langCfg lang writeTests dir maxRetries n i chunk s)
           = writtenFiles s
       \<and> totalTests (process_chunk E langCfg lang writeTests dir maxRetries n i chunk s)
           = totalTests s"
proof -
  let ?gen = "\<lambda>r. GenerateUnitTests_at E i r (TestPrompt langCfg) chunk lang"
  let ?s0 = "s\<lparr>printed := printed s @ [Reviewing (i + 1) n lang]\<rparr>"
  obtain s2 where ar: "after_review i err (?s0\<lparr>printed := out1\<rparr>) = (False, s2)"
    and s2: "failedChunks s2 = failedChunks s" "os s2 = os s" "writtenFiles s2 = writtenFiles s"
      "totalTests s2 = totalTests s"
    using reached by (cases err) (auto simp add: after_review_def)
  let ?s3 = "if review = [] then s2\<lparr>printed := printed s2 @ [EmptyReview (i + 1)]\<rparr> else s2"
  obtain tg out2 where
    gl: "attempt_loop ?gen (TestGenAttemptError (i + 1) maxRetries) maxRetries 0 ([], err)
           (printed ?s3) = (tg, out2)"
    by (cases "attempt_loop ?gen (TestGenAttemptError (i + 1) maxRetries) maxRetries 0
                 ([], err) (printed ?s3)")
  have "fst (attempt_loop ?gen (TestGenAttemptError (i + 1) maxRetries) maxRetries 0
               ([], err) (printed ?s3)) = ?gen (nat maxRetries - 1)"
    using pos fails by (intro attempt_loop_exhausted) simp_all
  with gl last have "snd tg = Some e2" by simp
  then obtain t where tg: "tg = (t, Some e2)" by (cases tg) simp
  obtain s5 where at: "after_tests i (Some e2) (?s3\<lparr>printed := out2\<rparr>) = (True, s5)"
    by (simp add: after_tests_def Let_def)
  from after_tests_failed [OF at] s2
  have s5: "failedChunks s5 = failedChunks s" "last (printed s5) = TestGenError (i + 1) e2"
    "os s5 = os s" "writtenFiles s5 = writtenFiles s" "totalTests s5 = totalTests s"
    by (simp_all split: if_splits)
  have "process_chunk E langCfg lang writeTests dir maxRetries n i chunk s = s5"
    using al ar gl tg at by (simp add: process_chunk_def Let_def)
  with s5 show ?thesis by simp
qed


text \<open>
  C3 (as the code has it). For every chunk whose review fails at every attempt and
  ends with an error whose text contains \<^verbatim>\<open>context deadline exceeded\<close>, the record with
  the chunk's index and that text is appended to the ledger in the iteration of the
  chunk, before the loop goes on. A chunk whose test generation is reached (its review
  succeeded, or failed at every attempt with an error of another text) and fails at
  every attempt is printed as failed and skipped, without a ledger record: the ledger
  is as it was, the last message of the iteration is the test-generation error with
  the chunk's number and the text of the last error, and the rest of the iteration
  does not run (nothing is written, no file is recorded or counted).
\<close>

theorem review_timeout_recorded:
  "(1 \<le> maxRetries
      \<and> (\<forall>r < nat maxRetries. snd (ReviewChunk_at E i r (ReviewPrompt langCfg) chunk lang) \<noteq> None)
      \<and> snd (ReviewChunk_at E i (nat maxRetries - 1) (ReviewPrompt langCfg) chunk lang) = Some e
      \<and> strings_Contains e deadline_exceeded
    \<longrightarrow> failedChunks (process_chunk E langCfg lang writeTests dir maxRetries n i chunk s)
          = failedChunks s @ [\<lparr>Index = int i, Error = e\<rparr>])
   \<and> (int k < maxRetries
      \<and> snd (ReviewChunk_at E i k (ReviewPrompt langCfg) chunk lang) = None
      \<and> (\<forall>r < k. snd (ReviewChunk_at E i r (ReviewPrompt langCfg) chunk lang) \<noteq> None)
      \<and> (\<forall>r < nat maxRetries.
            snd (GenerateUnitTests_at E i r (TestPrompt langCfg) chunk lang) \<noteq> None)
      \<and> snd (GenerateUnitTests_at E i (nat maxRetries - 1) (TestPrompt langCfg) chunk lang)
          = Some e2
    \<longrightarrow> failedChunks (process_chunk E langCfg lang writeTests dir maxRetries n i chunk s)
            = failedChunks s
        \<and> last (printed (process_chunk E langCfg lang writeTests dir maxRetries n i chunk s))
            = TestGenError (i + 1) e2
        \<and> os (process_chunk E langCfg lang writeTests dir maxRetries n i chunk s) = os s
        \<and> writtenFiles (process_chunk E langCfg lang writeTests dir maxRetries n i chunk s)
            = writtenFiles s
        \<and> totalTests (process_chunk E langCfg lang writeTests dir maxRetries n i chunk s)
            = totalTests s)
   \<and> (1 \<le> maxRetries
      \<and> (\<forall>r < nat maxRetries. snd (ReviewChunk_at E i r (ReviewPrompt langCfg) chunk lang) \<noteq> None)
      \<and> snd (ReviewChunk_at E i (nat maxRetries - 1) (ReviewPrompt langCfg) chunk lang) = Some e1
      \<and> \<not> strings_Contains e1 deadline_exceeded
      \<and> (\<forall>r < nat maxRetries.
            snd (GenerateUnitTests_at E i r (TestPrompt langCfg) chunk lang) \<noteq> None)
      \<and> snd (GenerateUnitTests_at E i (nat maxRetries - 1) (TestPrompt langCfg) chunk lang)
          = Some e2
    \<longrightarrow> failedChunks (process_chunk E langCfg lang writeTests dir maxRetries n i chunk s)
            = failedChunks s
        \<and> last (printed (process_chunk E langCfg lang writeTests dir maxRetries n i chunk s))
            = TestGenError (i + 1) e2
        \<and> os (process_chunk E langCfg lang writeTests dir maxRetries n i chunk s) = os s
        \<and> writtenFiles (process_chunk E langCfg lang writeTests dir maxRetries n i chunk s)
            = writtenFiles s
        \<and> totalTests (process_chunk E langCfg lang writeTests dir maxRetries n i chunk s)
            = totalTests s)"
proof (intro conjI impI)
  let ?review = "\<lambda>r. ReviewChunk_at E i r (ReviewPrompt langCfg) chunk lang"
  let ?gen = "\<lambda>r. GenerateUnitTests_at E i r (TestPrompt langCfg) chunk lang"
  let ?pc = "process_chunk E langCfg lang writeTests dir maxRetries n i chunk s"
  let ?goal = "failedChunks ?pc = failedChunks s
        \<and> last (printed ?pc) = TestGenError (i + 1) e2
        \<and> os ?pc = os s \<and> writtenFiles ?pc = writtenFiles s \<and> totalTests ?pc = totalTests s"
  obtain review err out1 where
    al: "attempt_loop ?review (ReviewAttemptError (i + 1) maxRetries) maxRetries 0 ([], None)
           (printed s @ [Reviewing (i + 1) n lang]) = ((review, err), out1)"
    by (metis surj_pair)
  {
    assume h: "1 \<le> maxRetries
      \<and> (\<forall>r < nat maxRetries. snd (?review r) \<noteq> None)
      \<and> snd (?review (nat maxRetries - 1)) = Some e
      \<and> strings_Contains e deadline_exceeded"
    have "fst (attempt_loop ?review (ReviewAttemptError (i + 1) maxRetries) maxRetries 0
                 ([], None) (printed s @ [Reviewing (i + 1) n lang])) = ?review (nat maxRetries - 1)"
      using h by (intro attempt_loop_exhausted) simp_all
    with al have eq: "?review (nat maxRetries - 1) = (review, err)" by simp
    from h have "snd (?review (nat maxRetries - 1)) = Some e" by simp
    then have err: "err = Some e" unfolding eq by simp
    from h have "strings_Contains e deadline_exceeded" by simp
    then show "failedChunks ?pc = failedChunks s @ [\<lparr>Index = int i, Error = e\<rparr>]"
      using al err by (simp add: process_chunk_def after_review_def Let_def)
  }
  {
    assume h: "int k < maxRetries
      \<and> snd (?review k) = None
      \<and> (\<forall>r < k. snd (?review r) \<noteq> None)
      \<and> (\<forall>r < nat maxRetries. snd (?gen r) \<noteq> None)
      \<and> snd (?gen (nat maxRetries - 1)) = Some e2"
    have "fst (attempt_loop ?review (ReviewAttemptError (i + 1) maxRetries) maxRetries 0
                 ([], None) (printed s @ [Reviewing (i + 1) n lang])) = (fst (?review k), None)"
      using h by (intro attempt_loop_succeeds) simp_all
    with al have "err = None" by simp
    moreover from h have "1 \<le> maxRetries" by linarith
    ultimately have ?goal
      using al h by (intro process_chunk_tests_exhausted [where review = review and err = err
            and ?out1.0 = out1]) simp_all
    then show "failedChunks ?pc = failedChunks s" "last (printed ?pc) = TestGenError (i + 1) e2"
      "os ?pc = os s" "writtenFiles ?pc = writtenFiles s" "totalTests ?pc = totalTests s"
      by simp_all
  }
  {
    assume h: "1 \<le> maxRetries
      \<and> (\<forall>r < nat maxRetries. snd (?review r) \<noteq> None)
      \<and> snd (?review (nat maxRetries - 1)) = Some e1
      \<and> \<not> strings_Contains e1 deadline_exceeded
      \<and> (\<forall>r < nat maxRetries. snd (?gen r) \<noteq> None)
      \<and> snd (?gen (nat maxRetries - 1)) = Some e2"
    have "fst (attempt_loop ?review (ReviewAttemptError (i + 1) maxRetries) maxRetries 0
                 ([], None) (printed s @ [Reviewing (i + 1) n lang])) = ?review (nat maxRetries - 1)"
      using h by (intro attempt_loop_exhausted) simp_all
    with al have eq: "?review (nat maxRetries - 1) = (review, err)" by simp
    from h have "snd (?review (nat maxRetries - 1)) = Some e1" by simp
    then have "err = Some e1" unfolding eq by simp
    then have ?goal
      using al h by (intro process_chunk_tests_exhausted [where review = review and err = err
            and ?out1.0 = out1]) simp_all
    then show "failedChunks ?pc = failedChunks s" "last (printed ?pc) = TestGenError (i + 1) e2"
      "os ?pc = os s" "writtenFiles ?pc = writtenFiles s" "totalTests ?pc = totalTests s"
      by simp_all
  }
qed

theorem review_timeout_recorded_witness:
  "failedChunks (process_chunk slow_backend (language_of go_config ''go'') ''go'' False ''.'' 2 1 0
                   ''chunk'' (initial_state empty_world))
     = [\<lparr>Index = 0, Error = timeout_text\<rparr>]
   \<and> failedChunks (process_chunk tests_down (language_of go_config ''go'') ''go'' False ''.'' 2 1 0
                   ''chunk'' (initial_state empty_world)) = []
   \<and> last (printed (process_chunk tests_down (language_of go_config ''go'') ''go'' False ''.'' 2 1 0
                   ''chunk'' (initial_state empty_world))) = TestGenError 1 ''connection refused''
   \<and> os (process_chunk tests_down (language_of go_config ''go'') ''go'' False ''.'' 2 1 0
                   ''chunk'' (initial_state empty_world)) = empty_world
   \<and> failedChunks (process_chunk all_down (language_of go_config ''go'') ''go'' False ''.'' 2 1 0
                   ''chunk'' (initial_state empty_world)) = []
   \<and> last (printed (process_chunk all_down (language_of go_config ''go'') ''go'' False ''.'' 2 1 0
                   ''chunk'' (initial_state empty_world))) = TestGenError 1 ''connection refused''
   \<and> os (process_chunk all_down (language_of go_config ''go'') ''go'' False ''.'' 2 1 0
                   ''chunk'' (initial_state empty_world)) = empty_world"
  using review_timeout_recorded [where E = slow_backend and maxRetries = 2 and i = 0
      and langCfg = "language_of go_config ''go''" and chunk = "''chunk''" and lang = "''go''"
      and e = timeout_text and writeTests = False and dir = "''.''" and n = 1
      and s = "initial_state empty_world"]
    review_timeout_recorded [where E = tests_down and maxRetries = 2 and i = 0
      and langCfg = "language_of go_config ''go''" and chunk = "''chunk''" and lang = "''go''"
      and writeTests = False and dir = "''.''" and n = 1
      and s = "initial_state empty_world" and k = 0 and ?e2.0 = "''connection refused''"]
    review_timeout_recorded [where E = all_down and maxRetries = 2 and i = 0
      and langCfg = "language_of go_config ''go''" and chunk = "''chunk''" and lang = "''go''"
      and writeTests = False and dir = "''.''" and n = 1
      and s = "initial_state empty_world" and ?e1.0 = "''connection refused''"
      and ?e2.0 = "''connection refused''"]
  by (simp add: slow_backend_def tests_down_def all_down_def backend_of_def timeout_text_deadline
      refused_not_deadline initial_state_def)

text \<open>
  C3 as stated fails for test generation: with a backend that refuses every
  test-generation request, the run of one chunk ends with an empty ledger, and no
  ledger file is written.
\<close>

theorem test_generation_failure_counterexample:
  "failedChunks (snd (ReviewAndFixLoop tests_down go_config ''go'' [''chunk''] False ''.'' False 2
                        ''failed_chunks.json'' empty_world)) = []
   \<and> ledgers (os (snd (ReviewAndFixLoop tests_down go_config ''go'' [''chunk''] False ''.'' False 2
                        ''failed_chunks.json'' empty_world))) ''failed_chunks.json'' = None"
  by (simp add: ReviewAndFixLoop_def write_summary_def process_chunk_def attempt_loop.simps
      after_review_def after_tests_def refused_not_deadline tests_down_def backend_of_def
      initial_state_def empty_world_def Let_def)

text \<open>
  A review that fails with an error other than a deadline is not recorded either: the
  append is inside the test for the deadline text (whose inner \<open>else\<close> can then never
  run), and the iteration goes on to generate tests for the chunk.
\<close>

lemma review_failure_not_recorded_example:
  "failedChunks (snd (ReviewAndFixLoop review_down go_config ''go'' [''chunk''] False ''.'' False 1
                        ''failed_chunks.json'' empty_world)) = []
   \<and> printed (snd (ReviewAndFixLoop review_down go_config ''go'' [''chunk''] False ''.'' False 1
                        ''failed_chunks.json'' empty_world))
     = [Reviewing 1 1 ''go'', ReviewAttemptError 1 1 1 ''connection refused'', Sleep 2,
        EmptyReview 1, TestSuggestions ''func TestX'', ChunkDone 1]"
  by (simp add: ReviewAndFixLoop_def write_summary_def process_chunk_def attempt_loop.simps
      after_review_def after_tests_def refused_not_deadline review_down_def backend_of_def
      initial_state_def empty_world_def Let_def)

text \<open>
  C7 at a failing input. Without \<^verbatim>\<open>--write-tests\<close>, four chunks and one attempt each:
  the reviews of chunks 0 and 1 run into the deadline, chunk 2 is reviewed and gets
  its tests, the review of chunk 3 runs into the deadline. The success of chunk 2
  does not reset the counter, which ends at 3, and the warning about 3 consecutive
  timeouts is printed though no three chunks in a row timed out.
\<close>

theorem timeout_count_survives_success:
  "timeoutCount (snd (ReviewAndFixLoop slow_backend go_config ''go'' [''a'', ''b'', ''c'', ''d'']
                        False ''.'' False 1 ''failed_chunks.json'' empty_world)) = 3
   \<and> TimeoutWarning 3 \<in> set (printed (snd (ReviewAndFixLoop slow_backend go_config ''go''
                        [''a'', ''b'', ''c'', ''d''] False ''.'' False 1 ''failed_chunks.json''
                        empty_world)))
   \<and> map Index (failedChunks (snd (ReviewAndFixLoop slow_backend go_config ''go''
                        [''a'', ''b'', ''c'', ''d''] False ''.'' False 1 ''failed_chunks.json''
                        empty_world))) = [0, 1, 3]"
  by (simp add: ReviewAndFixLoop_def write_summary_def process_chunk_def attempt_loop.simps
      after_review_def after_tests_def count_timeout_def timeout_text_deadline slow_backend_def
      backend_of_def initial_state_def empty_world_def Let_def)

text \<open>
  The reset on a successful chunk (line 423, \<^verbatim>\<open>// Reset on successful chunk\<close>) is the
  first statement inside \<^verbatim>\<open>if writeTests\<close>, so it runs only with \<^verbatim>\<open>--write-tests\<close>.
\<close>

lemma write_and_run_resets: "timeoutCount (write_and_run E lang dir i testGen s) = 0"
  by (simp add: write_and_run_def Let_def split: prod.splits option.splits)

section \<open>Resume mode\<close>

lemma resume_loop_filter:
  "resume_loop allChunks failed chunks =
     Return (chunks @ map (\<lambda>i. allChunks ! nat i)
                        (filter (\<lambda>i. 0 \<le> i \<and> i < int (length allChunks)) failed))"
  by (induction failed arbitrary: chunks) (simp_all add: index_chunk_def)

text \<open>
  The loop over the records of the ledger (lines 61-66) never panics and collects the
  chunks of exactly the records whose index is in range, in the ledger's order: a
  record whose index is negative or not below the number of chunks adds nothing.
\<close>

lemma resume_loop_skips_out_of_range:
  "resume_chunks allChunks failed =
     Return (map (\<lambda>i. allChunks ! nat i)
               (filter (\<lambda>i. 0 \<le> i \<and> i < int (length allChunks)) failed))"
  by (simp add: resume_chunks_def resume_loop_filter)

text \<open>
  C9 at a failing input. With \<^verbatim>\<open>--resume-failed\<close>, a ledger naming the chunks 2 and 7,
  a project of three chunks and the default mode, the resume block selects the one
  chunk in range, without an error; the mode branch then assigns the chunks of the
  uncommitted diff to the same variable, and the review loop is called with all
  three of them.
\<close>

theorem resume_selection_overwritten:
  "resume_chunks (project_chunks resume_env) [2, 7] = Return [''p2'']
   \<and> main_reviews two_line_chunks resume_flags resume_env =
       Return (Reviews [(''go'', [''a.go'' @ newline # ''b'', ''c'' @ newline # ''d'', ''e''])])"
  by (simp add: main_reviews_def main_resume_def main_mode_def resume_flags_def resume_env_def
      two_line_chunks_def go_config_def five_line_diff_def go_bind_def resume_chunks_def
      index_chunk_def ChunkDiff_def chunk_loop.simps go_slice_def newline_def language_of_def
      strings_Contains_def Let_def)

text \<open>
  In general: which indices the ledger holds has no effect on what \<^verbatim>\<open>main\<close> hands to
  the review loop.
\<close>

lemma main_ignores_ledger_indices:
  "main_reviews cfg F (M\<lparr>ledger_file := Inr (Inr failed1)\<rparr>)
     = main_reviews cfg F (M\<lparr>ledger_file := Inr (Inr failed2)\<rparr>)"
  by (simp add: main_reviews_def main_resume_def go_bind_def resume_chunks_def resume_loop_filter
      main_mode_def Let_def
      cong: if_cong sum.case_cong go.case_cong option.case_cong prod.case_cong)


end
